theory Spec2Isabelle
  imports Complex_Main
begin

section \<open>Tensors, errors and the operators of the tensor runtime\<close>

text \<open>
  The program (\<^verbatim>\<open>src/im2im/unet/model.py\<close>) wires operators of the tensor runtime
  into a U-Net. What the program itself decides is the topology: which operator runs on
  which tensor, with which channel counts, kernel sizes and paddings. A tensor is its
  shape, the list of its dimension sizes (\<^verbatim>\<open>x.size()\<close>), together with the element at
  each index; a batched feature map has the shape \<open>[B, C, H, W]\<close>. The element function is
  looked at within the shape only.

  The elements are of any linearly ordered type with a zero, a one, an addition and a
  division. No law of arithmetic is assumed of them (addition need not be associative),
  so no statement depends on how the runtime rounds. Values that are not ordered
  (not-a-number) are outside the model.

  Every exception the runtime or the interpreter can raise on the way is a value of
  \<open>error\<close>, named after the Python exception class.
\<close>

type_synonym shape = "nat list"

datatype error = TypeError | ValueError | RuntimeError | IndexError | NotImplementedError

record 'a tensor =
  dims :: shape
  elem :: "nat list \<Rightarrow> 'a"

definition torch_zeros :: "shape \<Rightarrow> 'a::zero tensor" where
  "torch_zeros d = \<lparr>dims = d, elem = (\<lambda>idx. 0)\<rparr>"

definition torch_ones :: "shape \<Rightarrow> 'a::one tensor" where
  "torch_ones d = \<lparr>dims = d, elem = (\<lambda>idx. 1)\<rparr>"

text \<open>
  Sequencing of a computation that may raise: the first error ends the computation.
\<close>

definition bind_res :: "error + 'a \<Rightarrow> ('a \<Rightarrow> error + 'b) \<Rightarrow> error + 'b" where
  "bind_res r f = (case r of Inl e \<Rightarrow> Inl e | Inr v \<Rightarrow> f v)"

text \<open>
  \<^verbatim>\<open>x.size()[i]\<close>: indexing the size tuple raises IndexError out of range.
\<close>

definition tensor_size :: "'a tensor \<Rightarrow> nat \<Rightarrow> error + nat" where
  "tensor_size x i = (if i < length (dims x) then Inr (dims x ! i) else Inl IndexError)"

subsection \<open>The shape each operator returns, and when it raises\<close>

text \<open>
  \<^verbatim>\<open>conv2d\<close> with stride 1: \<open>cin\<close> input channels, \<open>cout\<close> output channels, a square
  kernel of size \<open>k\<close> and zero padding \<open>p\<close> on each side. It takes a batched (4-D) or an
  unbatched (3-D) input, rejects a channel count other than \<open>cin\<close>, a weight without
  input or output channels and a padded input smaller than the kernel, and returns
  spatial size \<open>h + 2p - k + 1\<close>.
\<close>

fun conv2d_size :: "nat \<Rightarrow> nat \<Rightarrow> nat \<Rightarrow> nat \<Rightarrow> shape \<Rightarrow> error + shape" where
  "conv2d_size cin cout k p [b, c, h, w] =
     (if 0 < cin \<and> 0 < cout \<and> c = cin \<and> k \<le> h + 2 * p \<and> k \<le> w + 2 * p
      then Inr [b, cout, h + 2 * p - k + 1, w + 2 * p - k + 1]
      else Inl RuntimeError)"
| "conv2d_size cin cout k p [c, h, w] =
     (if 0 < cin \<and> 0 < cout \<and> c = cin \<and> k \<le> h + 2 * p \<and> k \<le> w + 2 * p
      then Inr [cout, h + 2 * p - k + 1, w + 2 * p - k + 1]
      else Inl RuntimeError)"
| "conv2d_size cin cout k p x = Inl RuntimeError"

text \<open>
  \<^verbatim>\<open>conv_transpose2d\<close> with kernel \<open>k\<close>, stride \<open>s\<close>, no padding: spatial size
  \<open>(h - 1) * s + k\<close>. A weight without input or output channels is rejected.
\<close>

fun conv_transpose2d_size :: "nat \<Rightarrow> nat \<Rightarrow> nat \<Rightarrow> nat \<Rightarrow> shape \<Rightarrow> error + shape" where
  "conv_transpose2d_size cin cout k s [b, c, h, w] =
     (if 0 < cin \<and> 0 < cout \<and> c = cin \<and> 0 < h \<and> 0 < w
      then Inr [b, cout, (h - 1) * s + k, (w - 1) * s + k]
      else Inl RuntimeError)"
| "conv_transpose2d_size cin cout k s [c, h, w] =
     (if 0 < cin \<and> 0 < cout \<and> c = cin \<and> 0 < h \<and> 0 < w
      then Inr [cout, (h - 1) * s + k, (w - 1) * s + k]
      else Inl RuntimeError)"
| "conv_transpose2d_size cin cout k s x = Inl RuntimeError"

text \<open>
  \<^verbatim>\<open>max_pool2d\<close> and \<^verbatim>\<open>avg_pool2d\<close> with kernel \<open>k\<close>, stride \<open>k\<close>, no padding and
  floor rounding: each spatial size is divided by \<open>k\<close>, rounding down. A map without
  channels and an output that would be empty are errors
  (\<^verbatim>\<open>Output size is too small\<close>). On an input of fewer than three dimensions
  \<^verbatim>\<open>max_pool2d\<close> raises RuntimeError, while \<^verbatim>\<open>avg_pool2d\<close> raises IndexError when it
  reads the channel dimension.
\<close>

fun max_pool2d_size :: "nat \<Rightarrow> shape \<Rightarrow> error + shape" where
  "max_pool2d_size k [b, c, h, w] =
     (if 0 < c \<and> 0 < h div k \<and> 0 < w div k then Inr [b, c, h div k, w div k]
      else Inl RuntimeError)"
| "max_pool2d_size k [c, h, w] =
     (if 0 < c \<and> 0 < h div k \<and> 0 < w div k then Inr [c, h div k, w div k]
      else Inl RuntimeError)"
| "max_pool2d_size k x = Inl RuntimeError"

fun avg_pool2d_size :: "nat \<Rightarrow> shape \<Rightarrow> error + shape" where
  "avg_pool2d_size k [b, c, h, w] =
     (if 0 < c \<and> 0 < h div k \<and> 0 < w div k then Inr [b, c, h div k, w div k]
      else Inl RuntimeError)"
| "avg_pool2d_size k [c, h, w] =
     (if 0 < c \<and> 0 < h div k \<and> 0 < w div k then Inr [c, h div k, w div k]
      else Inl RuntimeError)"
| "avg_pool2d_size k [] = Inl IndexError"
| "avg_pool2d_size k [a] = Inl IndexError"
| "avg_pool2d_size k [a, b] = Inl IndexError"
| "avg_pool2d_size k x = Inl RuntimeError"

text \<open>
  \<^verbatim>\<open>interpolate(scale_factor=s, mode='bilinear', align_corners=True)\<close>: bilinear mode
  needs a 4-D input with channels; each spatial size is multiplied by \<open>s\<close>.
\<close>

fun upsample_size :: "nat \<Rightarrow> shape \<Rightarrow> error + shape" where
  "upsample_size s [b, c, h, w] =
     (if 0 < c \<and> 0 < h \<and> 0 < w then Inr [b, c, s * h, s * w] else Inl RuntimeError)"
| "upsample_size s x = Inl NotImplementedError"

text \<open>
  \<^verbatim>\<open>batch_norm\<close> as \<^verbatim>\<open>nn.BatchNorm2d.forward\<close> runs it, with \<open>n\<close> features and the
  counter \<open>t\<close> (\<^verbatim>\<open>num_batches_tracked\<close>) of the layer. The layer first checks that the
  input is 4-D (ValueError otherwise). In training mode it then increments the counter,
  and normalising with batch statistics needs more than one value per channel:
  \<open>B * H * W = 1\<close> raises ValueError
  (\<^verbatim>\<open>Expected more than 1 value per channel when training\<close>). A channel count other
  than \<open>n\<close> is a RuntimeError. The result is the shape of the output (or the error)
  together with the counter after the call.
\<close>

fun batch_norm_size :: "bool \<Rightarrow> nat \<Rightarrow> nat \<Rightarrow> shape \<Rightarrow> (error + shape) \<times> nat" where
  "batch_norm_size tr n t [b, c, h, w] =
     (if tr \<and> b * h * w = 1 then Inl ValueError
      else if c = n then Inr [b, c, h, w]
      else Inl RuntimeError,
      if tr then t + 1 else t)"
| "batch_norm_size tr n t x = (Inl ValueError, t)"

text \<open>
  \<^verbatim>\<open>F.pad(x, pad)\<close> in constant mode: \<open>pad\<close> lists (before, after) pairs starting from
  the last dimension. A negative amount crops. \<open>pad_dims\<close> works on the reversed shape.
\<close>

fun pad_dims :: "nat list \<Rightarrow> int list \<Rightarrow> error + nat list" where
  "pad_dims ds [] = Inr ds"
| "pad_dims (d # ds) (l # r # ps) =
     (if int d + l + r < 0 then Inl RuntimeError
      else bind_res (pad_dims ds ps) (\<lambda>ds'. Inr (nat (int d + l + r) # ds')))"
| "pad_dims ds ps = Inl RuntimeError"

definition pad_size :: "shape \<Rightarrow> int list \<Rightarrow> error + shape" where
  "pad_size x pad = bind_res (pad_dims (rev x) pad) (\<lambda>ds. Inr (rev ds))"

subsection \<open>Padding and concatenation\<close>

text \<open>
  \<^verbatim>\<open>F.pad\<close> and \<^verbatim>\<open>torch.cat\<close> compute nothing: they copy elements and fill in
  zeros, so their result is given element by element.

  \<open>pad_before\<close> lists the amounts \<^verbatim>\<open>F.pad\<close> inserts before the data, for the last
  dimension first. The element of the padded tensor at \<open>idx\<close> is the element of \<open>x\<close> at
  the index moved back by these amounts, where that index lies inside \<open>x\<close>, and 0
  elsewhere.
\<close>

fun pad_before :: "int list \<Rightarrow> int list" where
  "pad_before (l # r # ps) = l # pad_before ps"
| "pad_before ps = []"

definition F_pad :: "'a::zero tensor \<Rightarrow> int list \<Rightarrow> error + 'a tensor" where
  "F_pad x pad =
     bind_res (pad_size (dims x) pad) (\<lambda>d.
     Inr \<lparr>dims = d,
          elem = (\<lambda>idx.
            let offs = pad_before pad @ replicate (length idx - length (pad_before pad)) 0;
                src = map2 (\<lambda>i l. int i - l) (rev idx) offs
            in if list_all2 (\<lambda>s n. 0 \<le> s \<and> s < int n) src (rev (dims x))
               then elem x (rev (map nat src)) else 0)\<rparr>)"

text \<open>
  \<^verbatim>\<open>torch.cat(tensors, dim)\<close>: the tensors must have the same number of dimensions and
  agree in every dimension but \<open>dim\<close>, along which the sizes add up; the elements of the
  first tensor come first, then those of the second, and so on.
\<close>

fun torch_cat :: "'a tensor list \<Rightarrow> nat \<Rightarrow> error + 'a tensor" where
  "torch_cat [] d = Inl RuntimeError"
| "torch_cat [a] d = (if d < length (dims a) then Inr a else Inl IndexError)"
| "torch_cat (a # b # ts) d =
     (if length (dims a) \<le> d then Inl IndexError
      else if (dims a)[d := 0] = (dims b)[d := 0]
      then torch_cat
             (\<lparr>dims = (dims a)[d := dims a ! d + dims b ! d],
               elem = (\<lambda>idx. if idx ! d < dims a ! d then elem a idx
                              else elem b (idx[d := idx ! d - dims a ! d]))\<rparr> # ts) d
      else Inl RuntimeError)"

subsection \<open>Pooling windows\<close>

text \<open>
  The indices of the \<open>k\<close> by \<open>k\<close> window of the input that a pooling layer with kernel and
  stride \<open>k\<close> reads for the output element at \<open>idx\<close>, row by row.
\<close>

definition window :: "nat \<Rightarrow> nat list \<Rightarrow> nat list list" where
  "window k idx =
     (let n = length idx; i = idx ! (n - 2); j = idx ! (n - 1)
      in concat (map (\<lambda>di. map (\<lambda>dj. take (n - 2) idx @ [k * i + di, k * j + dj]) [0..<k])
                   [0..<k]))"

text \<open>
  The maximum of a window, and its mean: the sum of its elements divided by their number
  (\<open>1 + 1 + \<dots>\<close> in the element type).
\<close>

definition window_max :: "'a::ord list \<Rightarrow> 'a" where
  "window_max vs = foldl max (hd vs) (tl vs)"

definition window_mean :: "'a::{plus,one,inverse} list \<Rightarrow> 'a" where
  "window_mean vs = foldl (+) (hd vs) (tl vs) / foldl (+) 1 (replicate (length vs - 1) 1)"


section \<open>Layers of the runtime\<close>

text \<open>
  The \<^verbatim>\<open>nn\<close> layer objects the program constructs, with the constructor arguments the
  program passes and the tensors the layer owns:
  \<^item> \<open>Conv2d in_channels out_channels kernel_size padding weight bias\<close> (no bias tensor
    when constructed with \<^verbatim>\<open>bias=False\<close>);
  \<^item> \<open>BatchNorm2d num_features weight bias running_mean running_var num_batches_tracked\<close>;
  \<^item> \<open>MaxPool2d kernel_size\<close>, \<open>AvgPool2d kernel_size\<close>;
  \<^item> \<open>Upsample scale_factor\<close> (mode bilinear, corners aligned);
  \<^item> \<open>ConvTranspose2d in_channels out_channels kernel_size stride weight bias\<close>;
  \<^item> \<open>ReLU\<close> (in place) and \<open>Tanh\<close>.
\<close>

datatype 'a layer =
    Conv2d nat nat nat nat "'a tensor" "'a tensor option"
  | BatchNorm2d nat "'a tensor" "'a tensor" "'a tensor" "'a tensor" nat
  | ReLU
  | MaxPool2d nat
  | AvgPool2d nat
  | Upsample nat
  | ConvTranspose2d nat nat nat nat "'a tensor" "'a tensor"
  | Tanh

text \<open>
  What the program takes from the runtime without fixing it is a parameter of the model:
  \<^item> \<open>initial name idx\<close>: the element at \<open>idx\<close> that the random initialiser draws for the
    parameter called \<open>name\<close> (the key of the parameter in \<^verbatim>\<open>state_dict()\<close>);
  \<^item> \<open>rand d idx\<close>: the element at \<open>idx\<close> of \<^verbatim>\<open>torch.rand(d)\<close>;
  \<^item> \<open>kernel l tr x idx\<close>: the element at \<open>idx\<close> of the output that the arithmetic of
    layer \<open>l\<close> (convolution, normalisation, interpolation, tanh) computes from the input
    \<open>x\<close> in training mode \<open>tr\<close>;
  \<^item> \<open>running_stats l x\<close>: the running mean and variance of the batch normalisation layer
    \<open>l\<close> after it has normalised \<open>x\<close> in training mode.
\<close>

record 'a runtime =
  initial :: "string \<Rightarrow> nat list \<Rightarrow> 'a"
  rand :: "shape \<Rightarrow> nat list \<Rightarrow> 'a"
  kernel :: "'a layer \<Rightarrow> bool \<Rightarrow> 'a tensor \<Rightarrow> nat list \<Rightarrow> 'a"
  running_stats :: "'a layer \<Rightarrow> 'a tensor \<Rightarrow> 'a tensor \<times> 'a tensor"

text \<open>
  The constructors of the layers that own tensors. Weights and biases of convolutions
  are drawn by the initialiser; a batch normalisation layer starts with weight 1, bias 0,
  running mean 0, running variance 1 and no batch counted.
\<close>

definition nn_Conv2d :: "'a runtime \<Rightarrow> string \<Rightarrow> nat \<Rightarrow> nat \<Rightarrow> nat \<Rightarrow> nat \<Rightarrow> bool \<Rightarrow> 'a layer" where
  "nn_Conv2d rt name in_channels out_channels kernel_size padding bias =
     Conv2d in_channels out_channels kernel_size padding
       \<lparr>dims = [out_channels, in_channels, kernel_size, kernel_size],
        elem = initial rt (name @ ''.weight'')\<rparr>
       (if bias then Some \<lparr>dims = [out_channels], elem = initial rt (name @ ''.bias'')\<rparr>
        else None)"

definition nn_ConvTranspose2d :: "'a runtime \<Rightarrow> string \<Rightarrow> nat \<Rightarrow> nat \<Rightarrow> nat \<Rightarrow> nat \<Rightarrow> 'a layer" where
  "nn_ConvTranspose2d rt name in_channels out_channels kernel_size stride =
     ConvTranspose2d in_channels out_channels kernel_size stride
       \<lparr>dims = [in_channels, out_channels, kernel_size, kernel_size],
        elem = initial rt (name @ ''.weight'')\<rparr>
       \<lparr>dims = [out_channels], elem = initial rt (name @ ''.bias'')\<rparr>"

definition nn_BatchNorm2d :: "nat \<Rightarrow> 'a::{zero,one} layer" where
  "nn_BatchNorm2d num_features =
     BatchNorm2d num_features (torch_ones [num_features]) (torch_zeros [num_features])
       (torch_zeros [num_features]) (torch_ones [num_features]) 0"

text \<open>
  Calling a layer in training mode \<open>tr\<close>: the output (or the error raised) and the layer
  after the call. Pooling and ReLU are given element by element; a batch normalisation
  layer that has normalised a batch in training mode holds new running statistics.
\<close>

fun layer_forward ::
  "'a::{linorder,zero,one,plus,inverse} runtime \<Rightarrow> bool \<Rightarrow> 'a layer \<Rightarrow> 'a tensor
   \<Rightarrow> (error + 'a tensor) \<times> 'a layer" where
  "layer_forward rt tr (Conv2d cin cout k p w b) x =
     (bind_res (conv2d_size cin cout k p (dims x)) (\<lambda>d.
        Inr \<lparr>dims = d, elem = kernel rt (Conv2d cin cout k p w b) tr x\<rparr>),
      Conv2d cin cout k p w b)"
| "layer_forward rt tr (BatchNorm2d n w b rm rv t) x =
     (case batch_norm_size tr n t (dims x) of
        (Inl e, t') \<Rightarrow> (Inl e, BatchNorm2d n w b rm rv t')
      | (Inr d, t') \<Rightarrow>
          (Inr \<lparr>dims = d, elem = kernel rt (BatchNorm2d n w b rm rv t) tr x\<rparr>,
           if tr
           then (case running_stats rt (BatchNorm2d n w b rm rv t) x of
                   (rm', rv') \<Rightarrow> BatchNorm2d n w b rm' rv' t')
           else BatchNorm2d n w b rm rv t'))"
| "layer_forward rt tr ReLU x =
     (Inr \<lparr>dims = dims x, elem = (\<lambda>idx. max 0 (elem x idx))\<rparr>, ReLU)"
| "layer_forward rt tr (MaxPool2d k) x =
     (bind_res (max_pool2d_size k (dims x)) (\<lambda>d.
        Inr \<lparr>dims = d, elem = (\<lambda>idx. window_max (map (elem x) (window k idx)))\<rparr>),
      MaxPool2d k)"
| "layer_forward rt tr (AvgPool2d k) x =
     (bind_res (avg_pool2d_size k (dims x)) (\<lambda>d.
        Inr \<lparr>dims = d, elem = (\<lambda>idx. window_mean (map (elem x) (window k idx)))\<rparr>),
      AvgPool2d k)"
| "layer_forward rt tr (Upsample s) x =
     (bind_res (upsample_size s (dims x)) (\<lambda>d.
        Inr \<lparr>dims = d, elem = kernel rt (Upsample s) tr x\<rparr>),
      Upsample s)"
| "layer_forward rt tr (ConvTranspose2d cin cout k s w b) x =
     (bind_res (conv_transpose2d_size cin cout k s (dims x)) (\<lambda>d.
        Inr \<lparr>dims = d, elem = kernel rt (ConvTranspose2d cin cout k s w b) tr x\<rparr>),
      ConvTranspose2d cin cout k s w b)"
| "layer_forward rt tr Tanh x =
     (Inr \<lparr>dims = dims x, elem = kernel rt Tanh tr x\<rparr>, Tanh)"

text \<open>
  \<^verbatim>\<open>nn.Sequential\<close>: the layers run in order, each on the output of the one before; an
  error stops the run and leaves the remaining layers untouched.
\<close>

fun Sequential_forward ::
  "'a::{linorder,zero,one,plus,inverse} runtime \<Rightarrow> bool \<Rightarrow> 'a layer list \<Rightarrow> 'a tensor
   \<Rightarrow> (error + 'a tensor) \<times> 'a layer list" where
  "Sequential_forward rt tr [] x = (Inr x, [])"
| "Sequential_forward rt tr (l # ls) x =
     (case layer_forward rt tr l x of
        (Inl e, l') \<Rightarrow> (Inl e, l' # ls)
      | (Inr y, l') \<Rightarrow>
          (case Sequential_forward rt tr ls y of (r, ls') \<Rightarrow> (r, l' # ls')))"

text \<open>
  One step of a \<^verbatim>\<open>forward\<close> method: \<open>r\<close> is the result of calling a sub-module,
  \<open>store\<close> puts the sub-module after the call back into the module, and \<open>cont\<close> is the
  rest of the method, run on the output when the call did not raise.
\<close>

definition stage ::
  "(error + 'x) \<times> 'm \<Rightarrow> ('m \<Rightarrow> 'n) \<Rightarrow> ('x \<Rightarrow> 'n \<Rightarrow> (error + 'x) \<times> 'n) \<Rightarrow> (error + 'x) \<times> 'n" where
  "stage r store cont =
     (case r of (Inl e, m) \<Rightarrow> (Inl e, store m) | (Inr y, m) \<Rightarrow> cont y (store m))"


section \<open>The blocks of the network\<close>

text \<open>
  Each constructor takes the name under which the block is registered in its parent, from
  which the names of its parameters follow as in \<^verbatim>\<open>state_dict()\<close>.
\<close>

subsection \<open>DoubleConv\<close>

record 'a DoubleConv =
  double_conv :: "'a layer list"

text \<open>
  \<^verbatim>\<open>mid_channels=None\<close> is the default; \<^verbatim>\<open>if not mid_channels\<close> is also true of 0.
\<close>

definition DoubleConv_init ::
  "'a::{zero,one} runtime \<Rightarrow> string \<Rightarrow> nat \<Rightarrow> nat \<Rightarrow> nat option \<Rightarrow> 'a DoubleConv" where
  "DoubleConv_init rt name in_channels out_channels mid_channels =
     (let mid = (case mid_channels of
                   None \<Rightarrow> out_channels
                 | Some m \<Rightarrow> if m = 0 then out_channels else m)
      in \<lparr>double_conv =
            [nn_Conv2d rt (name @ ''.double_conv.0'') in_channels mid 3 1 False,
             nn_BatchNorm2d mid,
             ReLU,
             nn_Conv2d rt (name @ ''.double_conv.3'') mid out_channels 3 1 False,
             nn_BatchNorm2d out_channels,
             ReLU]\<rparr>)"

definition DoubleConv_forward ::
  "'a::{linorder,zero,one,plus,inverse} runtime \<Rightarrow> bool \<Rightarrow> 'a DoubleConv \<Rightarrow> 'a tensor
   \<Rightarrow> (error + 'a tensor) \<times> 'a DoubleConv" where
  "DoubleConv_forward rt tr self x =
     (case Sequential_forward rt tr (double_conv self) x of
        (r, ls) \<Rightarrow> (r, self\<lparr>double_conv := ls\<rparr>))"

subsection \<open>Down and AvgDown\<close>

text \<open>
  The \<^verbatim>\<open>nn.Sequential\<close> of a pooling layer and a DoubleConv is the pair of the two.
\<close>

record 'a Down =
  maxpool_conv :: "'a layer \<times> 'a DoubleConv"

definition Down_init :: "'a::{zero,one} runtime \<Rightarrow> string \<Rightarrow> nat \<Rightarrow> nat \<Rightarrow> 'a Down" where
  "Down_init rt name in_channels out_channels =
     \<lparr>maxpool_conv =
        (MaxPool2d 2,
         DoubleConv_init rt (name @ ''.maxpool_conv.1'') in_channels out_channels None)\<rparr>"

definition Down_forward ::
  "'a::{linorder,zero,one,plus,inverse} runtime \<Rightarrow> bool \<Rightarrow> 'a Down \<Rightarrow> 'a tensor \<Rightarrow> (error + 'a tensor) \<times> 'a Down" where
  "Down_forward rt tr self x =
     (case maxpool_conv self of (pool, dc) \<Rightarrow>
        stage (layer_forward rt tr pool x) (\<lambda>pool'. self\<lparr>maxpool_conv := (pool', dc)\<rparr>)
          (\<lambda>y self. case DoubleConv_forward rt tr (snd (maxpool_conv self)) y of
             (r, dc') \<Rightarrow> (r, self\<lparr>maxpool_conv := (fst (maxpool_conv self), dc')\<rparr>)))"

record 'a AvgDown =
  avgpool_conv :: "'a layer \<times> 'a DoubleConv"

definition AvgDown_init :: "'a::{zero,one} runtime \<Rightarrow> string \<Rightarrow> nat \<Rightarrow> nat \<Rightarrow> 'a AvgDown" where
  "AvgDown_init rt name in_channels out_channels =
     \<lparr>avgpool_conv =
        (AvgPool2d 2,
         DoubleConv_init rt (name @ ''.avgpool_conv.1'') in_channels out_channels None)\<rparr>"

definition AvgDown_forward ::
  "'a::{linorder,zero,one,plus,inverse} runtime \<Rightarrow> bool \<Rightarrow> 'a AvgDown \<Rightarrow> 'a tensor \<Rightarrow> (error + 'a tensor) \<times> 'a AvgDown" where
  "AvgDown_forward rt tr self x =
     (case avgpool_conv self of (pool, dc) \<Rightarrow>
        stage (layer_forward rt tr pool x) (\<lambda>pool'. self\<lparr>avgpool_conv := (pool', dc)\<rparr>)
          (\<lambda>y self. case DoubleConv_forward rt tr (snd (avgpool_conv self)) y of
             (r, dc') \<Rightarrow> (r, self\<lparr>avgpool_conv := (fst (avgpool_conv self), dc')\<rparr>)))"

subsection \<open>Up\<close>

record 'a Up =
  up :: "'a layer"
  conv :: "'a DoubleConv"

definition Up_init :: "'a::{zero,one} runtime \<Rightarrow> string \<Rightarrow> nat \<Rightarrow> nat \<Rightarrow> bool \<Rightarrow> 'a Up" where
  "Up_init rt name in_channels out_channels bilinear =
     (if bilinear
      then \<lparr>up = Upsample 2,
            conv = DoubleConv_init rt (name @ ''.conv'') in_channels out_channels
                     (Some (in_channels div 2))\<rparr>
      else \<lparr>up = nn_ConvTranspose2d rt (name @ ''.up'') in_channels (in_channels div 2) 2 2,
            conv = DoubleConv_init rt (name @ ''.conv'') in_channels out_channels None\<rparr>)"

text \<open>
  Lines 72 to 76 of \<^verbatim>\<open>Up.forward\<close>: the size differences (Python integers, which may be
  negative; \<^verbatim>\<open>//\<close> rounds down, as \<open>div\<close> on \<open>int\<close> does), the padding of the upsampled
  \<open>x1\<close> and the concatenation \<^verbatim>\<open>torch.cat([x2, x1], dim=1)\<close>.
\<close>

definition pad_and_cat :: "'a::zero tensor \<Rightarrow> 'a tensor \<Rightarrow> error + 'a tensor" where
  "pad_and_cat x1 x2 =
     bind_res (tensor_size x2 2) (\<lambda>h2.
     bind_res (tensor_size x1 2) (\<lambda>h1.
     let diffY = int h2 - int h1 in
     bind_res (tensor_size x2 3) (\<lambda>w2.
     bind_res (tensor_size x1 3) (\<lambda>w1.
     let diffX = int w2 - int w1 in
     bind_res (F_pad x1 [diffX div 2, diffX - diffX div 2,
                         diffY div 2, diffY - diffY div 2]) (\<lambda>x1.
     torch_cat [x2, x1] 1)))))"

definition Up_forward ::
  "'a::{linorder,zero,one,plus,inverse} runtime \<Rightarrow> bool \<Rightarrow> 'a Up \<Rightarrow> 'a tensor \<Rightarrow> 'a tensor \<Rightarrow> (error + 'a tensor) \<times> 'a Up" where
  "Up_forward rt tr self x1 x2 =
     stage (layer_forward rt tr (up self) x1) (\<lambda>u. self\<lparr>up := u\<rparr>) (\<lambda>x1 self.
     case pad_and_cat x1 x2 of
       Inl e \<Rightarrow> (Inl e, self)
     | Inr x \<Rightarrow> stage (DoubleConv_forward rt tr (conv self) x) (\<lambda>c. self\<lparr>conv := c\<rparr>)
                 (\<lambda>y self. (Inr y, self)))"

subsection \<open>OutConv\<close>

record 'a OutConv =
  out_conv :: "'a layer list"

definition OutConv_init :: "'a runtime \<Rightarrow> string \<Rightarrow> nat \<Rightarrow> nat \<Rightarrow> 'a OutConv" where
  "OutConv_init rt name in_channels out_channels =
     \<lparr>out_conv = [nn_Conv2d rt (name @ ''.out_conv.0'') in_channels out_channels 1 0 True,
                  Tanh]\<rparr>"

definition OutConv_forward ::
  "'a::{linorder,zero,one,plus,inverse} runtime \<Rightarrow> bool \<Rightarrow> 'a OutConv \<Rightarrow> 'a tensor \<Rightarrow> (error + 'a tensor) \<times> 'a OutConv" where
  "OutConv_forward rt tr self x =
     (case Sequential_forward rt tr (out_conv self) x of
        (r, ls) \<Rightarrow> (r, self\<lparr>out_conv := ls\<rparr>))"


section \<open>Classes and \<^verbatim>\<open>super\<close>\<close>

text \<open>
  The classes of the program, \<^verbatim>\<open>nn.Module\<close> and \<^verbatim>\<open>object\<close>. Every class of the
  program is declared \<^verbatim>\<open>class X(nn.Module)\<close>, \<^verbatim>\<open>AvgPoolUNet\<close> too.
\<close>

datatype pyclass =
    Object_cls | Module_cls
  | DoubleConv_cls | Down_cls | AvgDown_cls | Up_cls | OutConv_cls
  | UNet_cls | AvgPoolUNet_cls

fun mro :: "pyclass \<Rightarrow> pyclass list" where
  "mro Object_cls = [Object_cls]"
| "mro Module_cls = [Module_cls, Object_cls]"
| "mro c = [c, Module_cls, Object_cls]"

text \<open>
  \<^verbatim>\<open>super(cls, self)\<close> for an instance \<open>self\<close> of class \<open>self_cls\<close>: Python raises
  TypeError (\<^verbatim>\<open>obj must be an instance or subtype of type\<close>) unless \<open>cls\<close> is in the
  method resolution order of \<open>self_cls\<close>; otherwise attribute lookup continues in the
  classes after \<open>cls\<close> there.
\<close>

definition py_super :: "pyclass \<Rightarrow> pyclass \<Rightarrow> error + pyclass list" where
  "py_super cls self_cls =
     (if cls \<in> set (mro self_cls)
      then Inr (tl (dropWhile (\<lambda>c. c \<noteq> cls) (mro self_cls)))
      else Inl TypeError)"


section \<open>UNet and AvgPoolUNet\<close>

text \<open>
  The attributes of a network object. Both classes assign the same attribute names; the
  type of the four downsampling stages is the parameter \<open>'d\<close>. \<open>training\<close> is the flag
  \<^verbatim>\<open>nn.Module.__init__\<close> sets to \<^verbatim>\<open>True\<close>; \<^verbatim>\<open>eval()\<close> and \<^verbatim>\<open>train()\<close> set it on a module
  and all its sub-modules together, so the network keeps one flag for all its layers.
\<close>

record ('a, 'd) net =
  training :: bool
  n_channels :: nat
  n_classes :: nat
  bilinear :: bool
  inc :: "'a DoubleConv"
  down1 :: 'd
  down2 :: 'd
  down3 :: 'd
  down4 :: 'd
  up1 :: "'a Up"
  up2 :: "'a Up"
  up3 :: "'a Up"
  up4 :: "'a Up"
  outc :: "'a OutConv"

type_synonym 'a UNet = "('a, 'a Down) net"

type_synonym 'a AvgPoolUNet = "('a, 'a AvgDown) net"

text \<open>
  The body of \<^verbatim>\<open>UNet.__init__\<close> after the call of \<^verbatim>\<open>nn.Module.__init__\<close>
  (lines 94 to 108).
\<close>

definition UNet_body :: "'a::{zero,one} runtime \<Rightarrow> nat \<Rightarrow> nat \<Rightarrow> bool \<Rightarrow> 'a UNet" where
  "UNet_body rt nch ncl bil =
     (let factor = (if bil then 2 else 1) in
      \<lparr>training = True,
       n_channels = nch,
       n_classes = ncl,
       bilinear = bil,
       inc = DoubleConv_init rt ''inc'' nch 64 None,
       down1 = Down_init rt ''down1'' 64 128,
       down2 = Down_init rt ''down2'' 128 256,
       down3 = Down_init rt ''down3'' 256 512,
       down4 = Down_init rt ''down4'' 512 (1024 div factor),
       up1 = Up_init rt ''up1'' 1024 (512 div factor) bil,
       up2 = Up_init rt ''up2'' 512 (256 div factor) bil,
       up3 = Up_init rt ''up3'' 256 (128 div factor) bil,
       up4 = Up_init rt ''up4'' 128 64 bil,
       outc = OutConv_init rt ''outc'' 64 ncl\<rparr>)"

text \<open>
  \<^verbatim>\<open>UNet(n_channels, n_classes, bilinear)\<close>: line 93 is \<^verbatim>\<open>super(UNet, self).__init__()\<close>
  on an instance of \<^verbatim>\<open>UNet\<close>.
\<close>

definition UNet_init :: "'a::{zero,one} runtime \<Rightarrow> nat \<Rightarrow> nat \<Rightarrow> bool \<Rightarrow> error + 'a UNet" where
  "UNet_init rt nch ncl bil =
     bind_res (py_super UNet_cls UNet_cls) (\<lambda>_. Inr (UNet_body rt nch ncl bil))"

definition UNet_forward ::
  "'a::{linorder,zero,one,plus,inverse} runtime \<Rightarrow> 'a UNet \<Rightarrow> 'a tensor \<Rightarrow> (error + 'a tensor) \<times> 'a UNet" where
  "UNet_forward rt self x =
     stage (DoubleConv_forward rt (training self) (inc self) x) (\<lambda>m. self\<lparr>inc := m\<rparr>) (\<lambda>x1 self.
     stage (Down_forward rt (training self) (down1 self) x1) (\<lambda>m. self\<lparr>down1 := m\<rparr>) (\<lambda>x2 self.
     stage (Down_forward rt (training self) (down2 self) x2) (\<lambda>m. self\<lparr>down2 := m\<rparr>) (\<lambda>x3 self.
     stage (Down_forward rt (training self) (down3 self) x3) (\<lambda>m. self\<lparr>down3 := m\<rparr>) (\<lambda>x4 self.
     stage (Down_forward rt (training self) (down4 self) x4) (\<lambda>m. self\<lparr>down4 := m\<rparr>) (\<lambda>x5 self.
     stage (Up_forward rt (training self) (up1 self) x5 x4) (\<lambda>m. self\<lparr>up1 := m\<rparr>) (\<lambda>x self.
     stage (Up_forward rt (training self) (up2 self) x x3) (\<lambda>m. self\<lparr>up2 := m\<rparr>) (\<lambda>x self.
     stage (Up_forward rt (training self) (up3 self) x x2) (\<lambda>m. self\<lparr>up3 := m\<rparr>) (\<lambda>x self.
     stage (Up_forward rt (training self) (up4 self) x x1) (\<lambda>m. self\<lparr>up4 := m\<rparr>) (\<lambda>x self.
     stage (OutConv_forward rt (training self) (outc self) x) (\<lambda>m. self\<lparr>outc := m\<rparr>) (\<lambda>logits self.
     (Inr logits, self)))))))))))"

text \<open>
  The body of \<^verbatim>\<open>AvgPoolUNet.__init__\<close> after its first line (lines 139 to 153).
\<close>

definition AvgPoolUNet_body :: "'a::{zero,one} runtime \<Rightarrow> nat \<Rightarrow> nat \<Rightarrow> bool \<Rightarrow> 'a AvgPoolUNet" where
  "AvgPoolUNet_body rt nch ncl bil =
     (let factor = (if bil then 2 else 1) in
      \<lparr>training = True,
       n_channels = nch,
       n_classes = ncl,
       bilinear = bil,
       inc = DoubleConv_init rt ''inc'' nch 64 None,
       down1 = AvgDown_init rt ''down1'' 64 128,
       down2 = AvgDown_init rt ''down2'' 128 256,
       down3 = AvgDown_init rt ''down3'' 256 512,
       down4 = AvgDown_init rt ''down4'' 512 (1024 div factor),
       up1 = Up_init rt ''up1'' 1024 (512 div factor) bil,
       up2 = Up_init rt ''up2'' 512 (256 div factor) bil,
       up3 = Up_init rt ''up3'' 256 (128 div factor) bil,
       up4 = Up_init rt ''up4'' 128 64 bil,
       outc = OutConv_init rt ''outc'' 64 ncl\<rparr>)"

text \<open>
  \<^verbatim>\<open>AvgPoolUNet(n_channels, n_classes, bilinear)\<close>: line 138 is
  \<^verbatim>\<open>super(UNet, self).__init__()\<close> on an instance of \<^verbatim>\<open>AvgPoolUNet\<close>.
\<close>

definition AvgPoolUNet_init ::
  "'a::{zero,one} runtime \<Rightarrow> nat \<Rightarrow> nat \<Rightarrow> bool \<Rightarrow> error + 'a AvgPoolUNet" where
  "AvgPoolUNet_init rt nch ncl bil =
     bind_res (py_super UNet_cls AvgPoolUNet_cls) (\<lambda>_. Inr (AvgPoolUNet_body rt nch ncl bil))"

definition AvgPoolUNet_forward ::
  "'a::{linorder,zero,one,plus,inverse} runtime \<Rightarrow> 'a AvgPoolUNet \<Rightarrow> 'a tensor \<Rightarrow> (error + 'a tensor) \<times> 'a AvgPoolUNet" where
  "AvgPoolUNet_forward rt self x =
     stage (DoubleConv_forward rt (training self) (inc self) x) (\<lambda>m. self\<lparr>inc := m\<rparr>) (\<lambda>x1 self.
     stage (AvgDown_forward rt (training self) (down1 self) x1) (\<lambda>m. self\<lparr>down1 := m\<rparr>) (\<lambda>x2 self.
     stage (AvgDown_forward rt (training self) (down2 self) x2) (\<lambda>m. self\<lparr>down2 := m\<rparr>) (\<lambda>x3 self.
     stage (AvgDown_forward rt (training self) (down3 self) x3) (\<lambda>m. self\<lparr>down3 := m\<rparr>) (\<lambda>x4 self.
     stage (AvgDown_forward rt (training self) (down4 self) x4) (\<lambda>m. self\<lparr>down4 := m\<rparr>) (\<lambda>x5 self.
     stage (Up_forward rt (training self) (up1 self) x5 x4) (\<lambda>m. self\<lparr>up1 := m\<rparr>) (\<lambda>x self.
     stage (Up_forward rt (training self) (up2 self) x x3) (\<lambda>m. self\<lparr>up2 := m\<rparr>) (\<lambda>x self.
     stage (Up_forward rt (training self) (up3 self) x x2) (\<lambda>m. self\<lparr>up3 := m\<rparr>) (\<lambda>x self.
     stage (Up_forward rt (training self) (up4 self) x x1) (\<lambda>m. self\<lparr>up4 := m\<rparr>) (\<lambda>x self.
     stage (OutConv_forward rt (training self) (outc self) x) (\<lambda>m. self\<lparr>outc := m\<rparr>) (\<lambda>logits self.
     (Inr logits, self)))))))))))"

text \<open>
  The self-test under \<^verbatim>\<open>if __name__ == '__main__'\<close>: construct an AvgPoolUNet with one
  input channel and one class and call it on a random tensor of shape (1, 1, 100, 100).
\<close>

definition main :: "'a::{linorder,zero,one,plus,inverse} runtime \<Rightarrow> error + 'a tensor" where
  "main rt =
     bind_res (AvgPoolUNet_init rt 1 1 False) (\<lambda>net.
     let test_img = \<lparr>dims = [1, 1, 100, 100], elem = rand rt [1, 1, 100, 100]\<rparr>
     in fst (AvgPoolUNet_forward rt net test_img))"


section \<open>The layers, parameters and statistics of a module\<close>

text \<open>
  The layers of each block in the order of registration, as \<^verbatim>\<open>modules()\<close> lists them.
\<close>

definition Down_layers :: "'a Down \<Rightarrow> 'a layer list" where
  "Down_layers m = fst (maxpool_conv m) # double_conv (snd (maxpool_conv m))"

definition Up_layers :: "'a Up \<Rightarrow> 'a layer list" where
  "Up_layers m = up m # double_conv (conv m)"

definition UNet_layers :: "'a UNet \<Rightarrow> 'a layer list" where
  "UNet_layers m =
     double_conv (inc m) @ Down_layers (down1 m) @ Down_layers (down2 m) @
     Down_layers (down3 m) @ Down_layers (down4 m) @ Up_layers (up1 m) @ Up_layers (up2 m) @
     Up_layers (up3 m) @ Up_layers (up4 m) @ out_conv (outc m)"

text \<open>
  The parameters of a layer (\<^verbatim>\<open>parameters()\<close>: weights and biases) and its normalisation
  statistics (the buffers of a batch normalisation layer: running mean, running variance
  and the number of batches tracked).
\<close>

fun layer_parameters :: "'a layer \<Rightarrow> 'a tensor list" where
  "layer_parameters (Conv2d cin cout k p w b) = w # (case b of None \<Rightarrow> [] | Some t \<Rightarrow> [t])"
| "layer_parameters (BatchNorm2d n w b rm rv t) = [w, b]"
| "layer_parameters (ConvTranspose2d cin cout k s w b) = [w, b]"
| "layer_parameters l = []"

fun layer_statistics :: "'a layer \<Rightarrow> ('a tensor \<times> 'a tensor \<times> nat) list" where
  "layer_statistics (BatchNorm2d n w b rm rv t) = [(rm, rv, t)]"
| "layer_statistics l = []"

definition num_batches_tracked :: "'a layer list \<Rightarrow> nat list" where
  "num_batches_tracked ls = map (\<lambda>(rm, rv, t). t) (concat (map layer_statistics ls))"


section \<open>Basic facts about the operators and the blocks\<close>

lemma fst_stage:
  "fst (stage r store cont) =
     (case fst r of Inl e \<Rightarrow> Inl e | Inr y \<Rightarrow> fst (cont y (store (snd r))))"
  by (simp add: stage_def split: prod.splits sum.splits)

lemma snd_stage:
  "snd (stage r store cont) =
     (case fst r of Inl e \<Rightarrow> store (snd r) | Inr y \<Rightarrow> snd (cont y (store (snd r))))"
  by (simp add: stage_def split: prod.splits sum.splits)

lemma UNet_init_ok: "UNet_init rt nch ncl bil = Inr (UNet_body rt nch ncl bil)"
  by (simp add: UNet_init_def py_super_def bind_res_def)

lemma fst_DoubleConv_forward:
  assumes "dims x = [b, cin, h, w]" "0 < cin" "0 < cout" "0 < h" "0 < w" "tr \<longrightarrow> b * h * w \<noteq> 1"
  shows "\<exists>y. fst (DoubleConv_forward rt tr (DoubleConv_init rt name cin cout mid) x) = Inr y \<and>
             dims y = [b, cout, h, w]"
  using assms
  by (simp add: DoubleConv_forward_def DoubleConv_init_def nn_Conv2d_def nn_BatchNorm2d_def
      Let_def bind_res_def split_beta split: option.splits)

subsection \<open>Shapes through one block\<close>

lemma window_2:
  "window 2 [n, c, i, j] =
     [[n, c, 2 * i, 2 * j], [n, c, 2 * i, 2 * j + 1],
      [n, c, 2 * i + 1, 2 * j], [n, c, 2 * i + 1, 2 * j + 1]]"
  by (simp add: window_def Let_def upt_rec numeral_2_eq_2)

lemma window_max_4:
  fixes a :: "'a::linorder"
  shows "window_max [a, b, c, d] = Max {a, b, c, d}"
  by (simp add: window_max_def max.assoc)

lemma window_mean_4: "window_mean [a, b, c, d] = (a + b + c + d) / (1 + 1 + 1 + 1)"
  by (simp add: window_mean_def numeral_3_eq_3)

lemma fst_max_pool:
  assumes "dims x = [b, c, h, w]" "0 < c" "2 \<le> h" "2 \<le> w"
  shows "fst (layer_forward rt tr (MaxPool2d 2) x) =
         Inr \<lparr>dims = [b, c, h div 2, w div 2],
              elem = (\<lambda>idx. window_max (map (elem x) (window 2 idx)))\<rparr>"
proof -
  have "0 < h div 2" "0 < w div 2" using assms(3,4) by auto
  then show ?thesis using assms(1,2) by (simp add: bind_res_def)
qed

lemma fst_avg_pool:
  assumes "dims x = [b, c, h, w]" "0 < c" "2 \<le> h" "2 \<le> w"
  shows "fst (layer_forward rt tr (AvgPool2d 2) x) =
         Inr \<lparr>dims = [b, c, h div 2, w div 2],
              elem = (\<lambda>idx. window_mean (map (elem x) (window 2 idx)))\<rparr>"
proof -
  have "0 < h div 2" "0 < w div 2" using assms(3,4) by auto
  then show ?thesis using assms(1,2) by (simp add: bind_res_def)
qed

lemma fst_Down_forward_seq:
  "fst (Down_forward rt tr m x) =
     bind_res (fst (layer_forward rt tr (fst (maxpool_conv m)) x))
       (\<lambda>y. fst (DoubleConv_forward rt tr (snd (maxpool_conv m)) y))"
  by (simp add: Down_forward_def fst_stage split_beta bind_res_def split: sum.splits)

lemma fst_AvgDown_forward_seq:
  "fst (AvgDown_forward rt tr m x) =
     bind_res (fst (layer_forward rt tr (fst (avgpool_conv m)) x))
       (\<lambda>y. fst (DoubleConv_forward rt tr (snd (avgpool_conv m)) y))"
  by (simp add: AvgDown_forward_def fst_stage split_beta bind_res_def split: sum.splits)

lemma fst_Down_forward:
  assumes "dims x = [b, cin, h, w]" "h' = h div 2" "w' = w div 2" "0 < cin" "0 < cout"
    "2 \<le> h" "2 \<le> w" "tr \<longrightarrow> b * h' * w' \<noteq> 1"
  shows "\<exists>y. fst (Down_forward rt tr (Down_init rt name cin cout) x) = Inr y \<and>
             dims y = [b, cout, h', w']"
proof -
  let ?p = "\<lparr>dims = [b, cin, h div 2, w div 2],
             elem = (\<lambda>idx. window_max (map (elem x) (window 2 idx)))\<rparr>"
  have pos: "0 < h'" "0 < w'" using assms(2,3,6,7) by auto
  have p: "fst (layer_forward rt tr (MaxPool2d 2) x) = Inr ?p"
    using assms(1,4,6,7) by (rule fst_max_pool)
  have "dims ?p = [b, cin, h', w']" using assms(2,3) by simp
  from fst_DoubleConv_forward[OF this assms(4,5) pos assms(8), of rt "name @ ''.maxpool_conv.1''" None]
  show ?thesis
    by (simp add: fst_Down_forward_seq Down_init_def p bind_res_def del: layer_forward.simps)
qed

lemma fst_AvgDown_forward:
  assumes "dims x = [b, cin, h, w]" "h' = h div 2" "w' = w div 2" "0 < cin" "0 < cout"
    "2 \<le> h" "2 \<le> w" "tr \<longrightarrow> b * h' * w' \<noteq> 1"
  shows "\<exists>y. fst (AvgDown_forward rt tr (AvgDown_init rt name cin cout) x) = Inr y \<and>
             dims y = [b, cout, h', w']"
proof -
  let ?p = "\<lparr>dims = [b, cin, h div 2, w div 2],
             elem = (\<lambda>idx. window_mean (map (elem x) (window 2 idx)))\<rparr>"
  have pos: "0 < h'" "0 < w'" using assms(2,3,6,7) by auto
  have p: "fst (layer_forward rt tr (AvgPool2d 2) x) = Inr ?p"
    using assms(1,4,6,7) by (rule fst_avg_pool)
  have "dims ?p = [b, cin, h', w']" using assms(2,3) by simp
  from fst_DoubleConv_forward[OF this assms(4,5) pos assms(8), of rt "name @ ''.avgpool_conv.1''" None]
  show ?thesis
    by (simp add: fst_AvgDown_forward_seq AvgDown_init_def p bind_res_def del: layer_forward.simps)
qed

lemma fst_OutConv_forward:
  assumes "dims x = [b, cin, h, w]" "0 < cin" "0 < cout" "0 < h" "0 < w"
  shows "\<exists>y. fst (OutConv_forward rt tr (OutConv_init rt name cin cout) x) = Inr y \<and>
             dims y = [b, cout, h, w]"
  using assms
  by (simp add: OutConv_forward_def OutConv_init_def nn_Conv2d_def bind_res_def split_beta)

lemma fst_up_layer:
  assumes "dims x1 = [b, c1, h, w]" "0 < h" "0 < w" "0 < c1" "bil \<or> c1 = cin \<and> 2 \<le> cin"
  shows "\<exists>u. fst (layer_forward rt tr (up (Up_init rt name cin cout bil)) x1) = Inr u \<and>
             dims u = [b, if bil then c1 else cin div 2, 2 * h, 2 * w]"
proof (cases bil)
  case True
  then show ?thesis using assms(1-4) by (simp add: Up_init_def bind_res_def)
next
  case False
  with assms(5) have c: "c1 = cin" "0 < cin" "0 < cin div 2" by auto
  have "(h - 1) * 2 + 2 = 2 * h" "(w - 1) * 2 + 2 = 2 * w" using assms(2,3) by auto
  with False c show ?thesis
    using assms(1-3) by (simp add: Up_init_def nn_ConvTranspose2d_def bind_res_def)
qed

lemma F_pad_to_size:
  assumes "dims u = [b, c, h, w]"
  shows "\<exists>p. F_pad u [(int W - int w) div 2, (int W - int w) - (int W - int w) div 2,
                       (int H - int h) div 2, (int H - int h) - (int H - int h) div 2] = Inr p \<and>
              dims p = [b, c, H, W] \<and>
              (\<forall>n k i j. n < b \<longrightarrow> k < c \<longrightarrow>
                 elem p [n, k, i, j] =
                 (if (int H - int h) div 2 \<le> int i \<and> int i < (int H - int h) div 2 + int h \<and>
                     (int W - int w) div 2 \<le> int j \<and> int j < (int W - int w) div 2 + int w
                  then elem u [n, k, nat (int i - (int H - int h) div 2),
                               nat (int j - (int W - int w) div 2)]
                  else 0))"
  using assms by (auto simp add: F_pad_def pad_size_def bind_res_def Let_def)

lemma torch_cat_channels:
  assumes "dims s = [b, c2, H, W]" "dims p = [b, cu, H, W]"
  shows "\<exists>y. torch_cat [s, p] 1 = Inr y \<and> dims y = [b, c2 + cu, H, W] \<and>
             (\<forall>n k i j. elem y [n, k, i, j] =
                (if k < c2 then elem s [n, k, i, j] else elem p [n, k - c2, i, j]))"
  using assms by simp

lemma pad_and_cat_eq:
  assumes "dims u = [b, cu, h, w]" "dims s = [b, c2, H, W]"
  shows "pad_and_cat u s =
         bind_res (F_pad u [(int W - int w) div 2, (int W - int w) - (int W - int w) div 2,
                            (int H - int h) div 2, (int H - int h) - (int H - int h) div 2])
           (\<lambda>p. torch_cat [s, p] 1)"
  using assms by (simp add: pad_and_cat_def tensor_size_def bind_res_def Let_def)

lemma fst_Up_forward_seq:
  "fst (Up_forward rt tr m x1 x2) =
     bind_res (fst (layer_forward rt tr (up m) x1)) (\<lambda>u.
     bind_res (pad_and_cat u x2) (\<lambda>y.
     fst (DoubleConv_forward rt tr (conv m) y)))"
  by (simp add: Up_forward_def fst_stage bind_res_def split: sum.splits)

lemma conv_Up_init:
  "conv (Up_init rt name cin cout bil)
   = DoubleConv_init rt (name @ ''.conv'') cin cout (if bil then Some (cin div 2) else None)"
  by (simp add: Up_init_def)

lemma fst_Up_forward:
  assumes "dims x1 = [b, c1, h, w]" "dims x2 = [b, c2, H, W]"
    and "0 < h" "0 < w" "0 < H" "0 < W" "0 < c1" "0 < cout"
    and "if bil then c1 + c2 = cin else c1 = cin \<and> 2 \<le> cin \<and> c2 + cin div 2 = cin"
    and "tr \<longrightarrow> b * H * W \<noteq> 1"
  shows "\<exists>y. fst (Up_forward rt tr (Up_init rt name cin cout bil) x1 x2) = Inr y \<and>
             dims y = [b, cout, H, W]"
proof -
  let ?cu = "if bil then c1 else cin div 2"
  have "bil \<or> c1 = cin \<and> 2 \<le> cin" using assms(9) by (auto split: if_splits)
  from fst_up_layer[OF assms(1,3,4,7) this, of rt tr name cout]
  obtain u where u: "fst (layer_forward rt tr (up (Up_init rt name cin cout bil)) x1) = Inr u"
    and du: "dims u = [b, ?cu, 2 * h, 2 * w]" by blast
  from F_pad_to_size[OF du, of W H]
  obtain p where p: "F_pad u [(int W - int (2 * w)) div 2,
        (int W - int (2 * w)) - (int W - int (2 * w)) div 2,
        (int H - int (2 * h)) div 2, (int H - int (2 * h)) - (int H - int (2 * h)) div 2] = Inr p"
    and dp: "dims p = [b, ?cu, H, W]" by blast
  from torch_cat_channels[OF assms(2) dp]
  obtain y where y: "torch_cat [x2, p] 1 = Inr y" and dy: "dims y = [b, c2 + ?cu, H, W]" by blast
  have pc: "pad_and_cat u x2 = Inr y"
    unfolding pad_and_cat_eq[OF du assms(2)] p bind_res_def sum.case by (rule y)
  have c: "c2 + ?cu = cin" "0 < cin" using assms(7,9) by (auto split: if_splits)
  from dy c have dy': "dims y = [b, cin, H, W]" by simp
  from fst_DoubleConv_forward[OF dy' c(2) assms(8,5,6,10),
      of rt "name @ ''.conv''" "if bil then Some (cin div 2) else None"]
  show ?thesis
    by (simp add: fst_Up_forward_seq u pc bind_res_def conv_Up_init del: layer_forward.simps)
qed

lemma fst_DoubleConv_forward_single:
  assumes "dims x = [b, cin, h, w]" "0 < cin" "0 < cout" "b * h * w = 1"
  shows "fst (DoubleConv_forward rt True (DoubleConv_init rt name cin cout mid) x) = Inl ValueError"
  using assms
  by (simp add: DoubleConv_forward_def DoubleConv_init_def nn_Conv2d_def nn_BatchNorm2d_def
      Let_def bind_res_def split_beta split: option.splits)

lemma fst_Down_forward_single:
  assumes "dims x = [b, cin, h, w]" "0 < cin" "0 < cout" "2 \<le> h" "2 \<le> w"
    "b * (h div 2) * (w div 2) = 1"
  shows "fst (Down_forward rt True (Down_init rt name cin cout) x) = Inl ValueError"
proof -
  let ?p = "\<lparr>dims = [b, cin, h div 2, w div 2],
             elem = (\<lambda>idx. window_max (map (elem x) (window 2 idx)))\<rparr>"
  have p: "fst (layer_forward rt True (MaxPool2d 2) x) = Inr ?p"
    using assms(1,2,4,5) by (rule fst_max_pool)
  have "dims ?p = [b, cin, h div 2, w div 2]" by simp
  from fst_DoubleConv_forward_single[OF this assms(2,3,6), of rt "name @ ''.maxpool_conv.1''" None]
  show ?thesis
    by (simp add: fst_Down_forward_seq Down_init_def p bind_res_def del: layer_forward.simps)
qed

lemma fst_AvgDown_forward_single:
  assumes "dims x = [b, cin, h, w]" "0 < cin" "0 < cout" "2 \<le> h" "2 \<le> w"
    "b * (h div 2) * (w div 2) = 1"
  shows "fst (AvgDown_forward rt True (AvgDown_init rt name cin cout) x) = Inl ValueError"
proof -
  let ?p = "\<lparr>dims = [b, cin, h div 2, w div 2],
             elem = (\<lambda>idx. window_mean (map (elem x) (window 2 idx)))\<rparr>"
  have p: "fst (layer_forward rt True (AvgPool2d 2) x) = Inr ?p"
    using assms(1,2,4,5) by (rule fst_avg_pool)
  have "dims ?p = [b, cin, h div 2, w div 2]" by simp
  from fst_DoubleConv_forward_single[OF this assms(2,3,6), of rt "name @ ''.avgpool_conv.1''" None]
  show ?thesis
    by (simp add: fst_AvgDown_forward_seq AvgDown_init_def p bind_res_def del: layer_forward.simps)
qed

subsection \<open>Shapes through the network\<close>

text \<open>
  The tensors \<open>x1\<close> to \<open>x5\<close>, the four decoder outputs and the logits of one forward
  pass on an input of shape \<open>[B, nch, H, W]\<close>.
\<close>

lemma UNet_body_fields:
  "training ((UNet_body rt nch ncl bil)\<lparr>training := tr\<rparr>) = tr"
  "inc ((UNet_body rt nch ncl bil)\<lparr>training := tr\<rparr>) = DoubleConv_init rt ''inc'' nch 64 None"
  "down1 ((UNet_body rt nch ncl bil)\<lparr>training := tr\<rparr>) = Down_init rt ''down1'' 64 128"
  "down2 ((UNet_body rt nch ncl bil)\<lparr>training := tr\<rparr>) = Down_init rt ''down2'' 128 256"
  "down3 ((UNet_body rt nch ncl bil)\<lparr>training := tr\<rparr>) = Down_init rt ''down3'' 256 512"
  "down4 ((UNet_body rt nch ncl bil)\<lparr>training := tr\<rparr>)
   = Down_init rt ''down4'' 512 (if bil then 512 else 1024)"
  "up1 ((UNet_body rt nch ncl bil)\<lparr>training := tr\<rparr>)
   = Up_init rt ''up1'' 1024 (if bil then 256 else 512) bil"
  "up2 ((UNet_body rt nch ncl bil)\<lparr>training := tr\<rparr>)
   = Up_init rt ''up2'' 512 (if bil then 128 else 256) bil"
  "up3 ((UNet_body rt nch ncl bil)\<lparr>training := tr\<rparr>)
   = Up_init rt ''up3'' 256 (if bil then 64 else 128) bil"
  "up4 ((UNet_body rt nch ncl bil)\<lparr>training := tr\<rparr>) = Up_init rt ''up4'' 128 64 bil"
  "outc ((UNet_body rt nch ncl bil)\<lparr>training := tr\<rparr>) = OutConv_init rt ''outc'' 64 ncl"
  by (simp_all add: UNet_body_def Let_def)

lemma fst_UNet_forward_stages:
  assumes "fst (DoubleConv_forward rt (training self) (inc self) x) = Inr x1"
    and "fst (Down_forward rt (training self) (down1 self) x1) = Inr x2"
    and "fst (Down_forward rt (training self) (down2 self) x2) = Inr x3"
    and "fst (Down_forward rt (training self) (down3 self) x3) = Inr x4"
    and "fst (Down_forward rt (training self) (down4 self) x4) = Inr x5"
    and "fst (Up_forward rt (training self) (up1 self) x5 x4) = Inr y1"
    and "fst (Up_forward rt (training self) (up2 self) y1 x3) = Inr y2"
    and "fst (Up_forward rt (training self) (up3 self) y2 x2) = Inr y3"
    and "fst (Up_forward rt (training self) (up4 self) y3 x1) = Inr y4"
    and "fst (OutConv_forward rt (training self) (outc self) y4) = Inr logits"
  shows "fst (UNet_forward rt self x) = Inr logits"
  using assms by (simp add: UNet_forward_def fst_stage)

lemma UNet_forward_trace:
  assumes "0 < nch" "0 < ncl" "16 \<le> H" "16 \<le> W"
    and "tr \<longrightarrow> B * (H div 16) * (W div 16) \<noteq> 1"
    and "dims x = [B, nch, H, W]"
    and "self = (UNet_body rt nch ncl bil)\<lparr>training := tr\<rparr>"
  shows "\<exists>x1 x2 x3 x4 x5 y1 y2 y3 y4 logits.
     fst (DoubleConv_forward rt tr (inc self) x) = Inr x1 \<and> dims x1 = [B, 64, H, W] \<and>
     fst (Down_forward rt tr (down1 self) x1) = Inr x2 \<and>
       dims x2 = [B, 128, H div 2, W div 2] \<and>
     fst (Down_forward rt tr (down2 self) x2) = Inr x3 \<and>
       dims x3 = [B, 256, H div 4, W div 4] \<and>
     fst (Down_forward rt tr (down3 self) x3) = Inr x4 \<and>
       dims x4 = [B, 512, H div 8, W div 8] \<and>
     fst (Down_forward rt tr (down4 self) x4) = Inr x5 \<and>
       dims x5 = [B, if bil then 512 else 1024, H div 16, W div 16] \<and>
     fst (Up_forward rt tr (up1 self) x5 x4) = Inr y1 \<and>
       dims y1 = [B, if bil then 256 else 512, H div 8, W div 8] \<and>
     fst (Up_forward rt tr (up2 self) y1 x3) = Inr y2 \<and>
       dims y2 = [B, if bil then 128 else 256, H div 4, W div 4] \<and>
     fst (Up_forward rt tr (up3 self) y2 x2) = Inr y3 \<and>
       dims y3 = [B, if bil then 64 else 128, H div 2, W div 2] \<and>
     fst (Up_forward rt tr (up4 self) y3 x1) = Inr y4 \<and> dims y4 = [B, 64, H, W] \<and>
     fst (OutConv_forward rt tr (outc self) y4) = Inr logits \<and>
       dims logits = [B, ncl, H, W] \<and>
     fst (UNet_forward rt self x) = Inr logits"
proof -
  define h1 w1 where "h1 = H div 2" and "w1 = W div 2"
  define h2 w2 where "h2 = H div 4" and "w2 = W div 4"
  define h3 w3 where "h3 = H div 8" and "w3 = W div 8"
  define h4 w4 where "h4 = H div 16" and "w4 = W div 16"
  define c5 :: nat where "c5 = (if bil then 512 else 1024)"
  define c6 :: nat where "c6 = (if bil then 256 else 512)"
  define c7 :: nat where "c7 = (if bil then 128 else 256)"
  define c8 :: nat where "c8 = (if bil then 64 else 128)"
  note defs = h1_def w1_def h2_def w2_def h3_def w3_def h4_def w4_def
  note cdefs = c5_def c6_def c7_def c8_def
  note f = UNet_body_fields[where rt = rt and nch = nch and ncl = ncl and bil = bil and tr = tr,
      folded assms(7) cdefs]
  have top: "0 < H" "0 < W" "2 \<le> H" "2 \<le> W"
    using assms(3,4) by auto
  have sz: "2 \<le> h1" "2 \<le> w1" "2 \<le> h2" "2 \<le> w2" "2 \<le> h3" "2 \<le> w3"
    "0 < h1" "0 < w1" "0 < h2" "0 < w2" "0 < h3" "0 < w3" "0 < h4" "0 < w4"
    using assms(3,4) unfolding defs by auto
  have halves: "h1 = H div 2" "w1 = W div 2" "h2 = h1 div 2" "w2 = w1 div 2"
    "h3 = h2 div 2" "w3 = w2 div 2" "h4 = h3 div 2" "w4 = w3 div 2"
    unfolding defs by (simp_all add: div_mult2_eq[symmetric])
  have bn: "tr \<longrightarrow> B * h4 * w4 \<noteq> 1"
    using assms(5) unfolding defs .
  have bn3: "tr \<longrightarrow> B * h3 * w3 \<noteq> 1" "tr \<longrightarrow> B * h2 * w2 \<noteq> 1" "tr \<longrightarrow> B * h1 * w1 \<noteq> 1"
    "tr \<longrightarrow> B * H * W \<noteq> 1"
    using sz(1-6) top(3,4) by (auto simp: nat_mult_eq_1_iff)
  have cpos: "0 < c5" "0 < c6" "0 < c7" "0 < c8"
    unfolding cdefs by auto
  have n: "(0::nat) < 64" "(0::nat) < 128" "(0::nat) < 256" "(0::nat) < 512"
    by simp_all
  obtain x1 where x1: "fst (DoubleConv_forward rt tr (inc self) x) = Inr x1"
    and d1: "dims x1 = [B, 64, H, W]"
    unfolding f using fst_DoubleConv_forward[OF assms(6,1) n(1) top(1,2) bn3(4)] by blast
  obtain x2 where x2: "fst (Down_forward rt tr (down1 self) x1) = Inr x2"
    and d2: "dims x2 = [B, 128, h1, w1]"
    unfolding f using fst_Down_forward[OF d1 halves(1,2) n(1,2) top(3,4) bn3(3)] by blast
  obtain x3 where x3: "fst (Down_forward rt tr (down2 self) x2) = Inr x3"
    and d3: "dims x3 = [B, 256, h2, w2]"
    unfolding f using fst_Down_forward[OF d2 halves(3,4) n(2,3) sz(1,2) bn3(2)] by blast
  obtain x4 where x4: "fst (Down_forward rt tr (down3 self) x3) = Inr x4"
    and d4: "dims x4 = [B, 512, h3, w3]"
    unfolding f using fst_Down_forward[OF d3 halves(5,6) n(3,4) sz(3,4) bn3(1)] by blast
  obtain x5 where x5: "fst (Down_forward rt tr (down4 self) x4) = Inr x5"
    and d5: "dims x5 = [B, c5, h4, w4]"
    unfolding f using fst_Down_forward[OF d4 halves(7,8) n(4) cpos(1) sz(5,6) bn] by blast
  have fit1: "if bil then c5 + 512 = 1024 else c5 = 1024 \<and> 2 \<le> (1024::nat) \<and> 512 + 1024 div 2 = (1024::nat)"
    unfolding cdefs by simp
  obtain y1 where y1: "fst (Up_forward rt tr (up1 self) x5 x4) = Inr y1"
    and e1: "dims y1 = [B, c6, h3, w3]"
    unfolding f
    using fst_Up_forward[OF d5 d4 sz(13,14,11,12) cpos(1,2) fit1 bn3(1)] by blast
  have fit2: "if bil then c6 + 256 = 512 else c6 = 512 \<and> 2 \<le> (512::nat) \<and> 256 + 512 div 2 = (512::nat)"
    unfolding cdefs by simp
  obtain y2 where y2: "fst (Up_forward rt tr (up2 self) y1 x3) = Inr y2"
    and e2: "dims y2 = [B, c7, h2, w2]"
    unfolding f
    using fst_Up_forward[OF e1 d3 sz(11,12,9,10) cpos(2,3) fit2 bn3(2)] by blast
  have fit3: "if bil then c7 + 128 = 256 else c7 = 256 \<and> 2 \<le> (256::nat) \<and> 128 + 256 div 2 = (256::nat)"
    unfolding cdefs by simp
  obtain y3 where y3: "fst (Up_forward rt tr (up3 self) y2 x2) = Inr y3"
    and e3: "dims y3 = [B, c8, h1, w1]"
    unfolding f
    using fst_Up_forward[OF e2 d2 sz(9,10,7,8) cpos(3,4) fit3 bn3(3)] by blast
  have fit4: "if bil then c8 + 64 = 128 else c8 = 128 \<and> 2 \<le> (128::nat) \<and> 64 + 128 div 2 = (128::nat)"
    unfolding cdefs by simp
  obtain y4 where y4: "fst (Up_forward rt tr (up4 self) y3 x1) = Inr y4"
    and e4: "dims y4 = [B, 64, H, W]"
    unfolding f
    using fst_Up_forward[OF e3 d1 sz(7,8) top(1,2) cpos(4) n(1) fit4 bn3(4)] by blast
  obtain logits where lg: "fst (OutConv_forward rt tr (outc self) y4) = Inr logits"
    and el: "dims logits = [B, ncl, H, W]"
    unfolding f using fst_OutConv_forward[OF e4 n(1) assms(2) top(1,2)] by blast
  have t: "training self = tr" by (rule f(1))
  have "fst (UNet_forward rt self x) = Inr logits"
    by (rule fst_UNet_forward_stages[of rt self x, unfolded t, OF x1 x2 x3 x4 x5 y1 y2 y3 y4 lg])
  with x1 d1 x2 d2 x3 d3 x4 d4 x5 d5 y1 e1 y2 e2 y3 e3 y4 e4 lg el
  show ?thesis
    unfolding defs cdefs by blast
qed

lemma fst_UNet_forward_bottleneck_error:
  assumes "fst (DoubleConv_forward rt (training self) (inc self) x) = Inr x1"
    and "fst (Down_forward rt (training self) (down1 self) x1) = Inr x2"
    and "fst (Down_forward rt (training self) (down2 self) x2) = Inr x3"
    and "fst (Down_forward rt (training self) (down3 self) x3) = Inr x4"
    and "fst (Down_forward rt (training self) (down4 self) x4) = Inl e"
  shows "fst (UNet_forward rt self x) = Inl e"
  using assms by (simp add: UNet_forward_def fst_stage)


section \<open>The shape contract of UNet\<close>

text \<open>
  Claim C1, as amended. For every configuration with positive \<open>n_channels\<close> and
  \<open>n_classes\<close>, either upsampling policy, and every input tensor of shape
  \<open>(B, n_channels, H, W)\<close> with \<open>H \<ge> 16\<close> and \<open>W \<ge> 16\<close>, odd sizes included, constructing
  the UNet succeeds and its forward pass returns a tensor of shape \<open>(B, n_classes, H, W)\<close>,
  provided the network is in evaluation mode or \<open>B * (H div 16) * (W div 16) \<noteq> 1\<close>: in
  training mode, the mode of a newly constructed network, batch normalisation at the
  bottleneck needs more than one value per channel.
\<close>

theorem UNet_forward_shape:
  assumes "0 < nch" and "0 < ncl" and "16 \<le> H" and "16 \<le> W"
    and "tr \<longrightarrow> B * (H div 16) * (W div 16) \<noteq> 1"
    and "dims x = [B, nch, H, W]"
  shows "UNet_init rt nch ncl bil = Inr (UNet_body rt nch ncl bil) \<and>
         (\<exists>y. fst (UNet_forward rt ((UNet_body rt nch ncl bil)\<lparr>training := tr\<rparr>) x) = Inr y \<and>
              dims y = [B, ncl, H, W])"
  using UNet_forward_trace[OF assms refl, of rt bil] UNet_init_ok[of rt nch ncl bil]
  by blast

text \<open>
  An instance: a new network with one input channel and one class, in training mode, on
  a batch of two images of 101 by 16 pixels.
\<close>

theorem UNet_forward_shape_witness:
  "\<forall>rt :: real runtime.
     UNet_init rt 1 1 False = Inr (UNet_body rt 1 1 False) \<and>
     (\<exists>y. fst (UNet_forward rt ((UNet_body rt 1 1 False)\<lparr>training := True\<rparr>)
                 (torch_zeros [2, 1, 101, 16])) = Inr y \<and>
          dims y = [2, 1, 101, 16])"
proof
  fix rt :: "real runtime"
  have fit: "(0::nat) < 1" "(0::nat) < 1" "(16::nat) \<le> 101" "(16::nat) \<le> 16"
    "True \<longrightarrow> (2::nat) * (101 div 16) * (16 div 16) \<noteq> 1"
    "dims (torch_zeros [2, 1, 101, 16] :: real tensor) = [2, 1, 101, 16]"
    by (simp_all add: torch_zeros_def)
  from UNet_forward_shape[OF fit, of rt False]
  show "UNet_init rt 1 1 False = Inr (UNet_body rt 1 1 False) \<and>
     (\<exists>y. fst (UNet_forward rt ((UNet_body rt 1 1 False)\<lparr>training := True\<rparr>)
                 (torch_zeros [2, 1, 101, 16])) = Inr y \<and>
          dims y = [2, 1, 101, 16])" .
qed

text \<open>
  The claim as first stated fails on a newly constructed network (training mode) for
  a batch of one image of 16 by 16 pixels: the fourth downsampling stage pools to 1 by 1,
  and its first batch normalisation raises ValueError.
\<close>

theorem UNet_forward_shape_counterexample:
  "\<forall>rt :: real runtime.
     UNet_init rt 1 1 False = Inr (UNet_body rt 1 1 False) \<and>
     training (UNet_body rt 1 1 False) \<and>
     fst (UNet_forward rt (UNet_body rt 1 1 False) (torch_zeros [1, 1, 16, 16])) = Inl ValueError"
proof
  fix rt :: "real runtime"
  let ?self = "(UNet_body rt 1 1 False)\<lparr>training := True\<rparr>"
  let ?x = "torch_zeros [1, 1, 16, 16] :: real tensor"
  note f = UNet_body_fields[where rt = rt and nch = 1 and ncl = 1 and bil = False and tr = True]
  have same: "UNet_body rt 1 1 False = ?self"
    by (simp add: UNet_body_def)
  have n: "(0::nat) < 1" "(0::nat) < 64" "(0::nat) < 128" "(0::nat) < 256" "(0::nat) < 512"
    "(0::nat) < 1024" "(0::nat) < 16" "(2::nat) \<le> 16" "(2::nat) \<le> 8" "(2::nat) \<le> 4" "(2::nat) \<le> 2"
    by simp_all
  have dx: "dims ?x = [1, 1, 16, 16]" by (simp add: torch_zeros_def)
  have bn: "True \<longrightarrow> (1::nat) * 16 * 16 \<noteq> 1" "True \<longrightarrow> (1::nat) * 8 * 8 \<noteq> 1"
    "True \<longrightarrow> (1::nat) * 4 * 4 \<noteq> 1" "True \<longrightarrow> (1::nat) * 2 * 2 \<noteq> 1"
    "(1::nat) * (2 div 2) * (2 div 2) = 1"
    by simp_all
  have hv: "(8::nat) = 16 div 2" "(4::nat) = 8 div 2" "(2::nat) = 4 div 2"
    by simp_all
  obtain x1 where x1: "fst (DoubleConv_forward rt True (inc ?self) ?x) = Inr x1"
    and d1: "dims x1 = [1, 64, 16, 16]"
    unfolding f using fst_DoubleConv_forward[OF dx n(1,2,7,7) bn(1)] by blast
  obtain x2 where x2: "fst (Down_forward rt True (down1 ?self) x1) = Inr x2"
    and d2: "dims x2 = [1, 128, 8, 8]"
    unfolding f using fst_Down_forward[OF d1 hv(1,1) n(2,3,8,8) bn(2)] by blast
  obtain x3 where x3: "fst (Down_forward rt True (down2 ?self) x2) = Inr x3"
    and d3: "dims x3 = [1, 256, 4, 4]"
    unfolding f using fst_Down_forward[OF d2 hv(2,2) n(3,4,9,9) bn(3)] by blast
  obtain x4 where x4: "fst (Down_forward rt True (down3 ?self) x3) = Inr x4"
    and d4: "dims x4 = [1, 512, 2, 2]"
    unfolding f using fst_Down_forward[OF d3 hv(3,3) n(4,5,10,10) bn(4)] by blast
  have x5: "fst (Down_forward rt True (down4 ?self) x4) = Inl ValueError"
    unfolding f if_False by (rule fst_Down_forward_single[OF d4 n(5,6,11,11) bn(5)])
  have t: "training ?self = True" by (rule f(1))
  have "fst (UNet_forward rt ?self ?x) = Inl ValueError"
    by (rule fst_UNet_forward_bottleneck_error[of rt ?self ?x, unfolded t, OF x1 x2 x3 x4 x5])
  then show "UNet_init rt 1 1 False = Inr (UNet_body rt 1 1 False) \<and>
     training (UNet_body rt 1 1 False) \<and>
     fst (UNet_forward rt (UNet_body rt 1 1 False) ?x) = Inl ValueError"
    unfolding same[symmetric] by (simp add: UNet_init_ok) (simp add: UNet_body_def)
qed


section \<open>The channel schedule\<close>

text \<open>
  Claim C6. The constructor of UNet wires the fixed channel schedule. For positive
  \<open>n_channels\<close> and \<open>n_classes\<close>, the network the constructor returns, run on an input it
  accepts, produces 64 channels at the stem, 128, 256, 512 and 1024 (512 with bilinear
  upsampling) at the four Down stages, 512, 256 and 128 (halved with bilinear upsampling:
  256, 128 and 64) at the first three Up stages and 64 at the fourth, and \<open>n_classes\<close>
  channels at OutConv, whose output is the result of the forward pass. Each stage is run
  on the output of the stage before it, the Up stages on the skip tensors \<open>x4\<close>, \<open>x3\<close>,
  \<open>x2\<close>, \<open>x1\<close> in this order.
\<close>

theorem UNet_channel_schedule:
  assumes "0 < nch" and "0 < ncl" and "16 \<le> H" and "16 \<le> W"
    and "tr \<longrightarrow> B * (H div 16) * (W div 16) \<noteq> 1"
    and "dims x = [B, nch, H, W]"
  shows "\<exists>net x1 x2 x3 x4 x5 y1 y2 y3 y4 logits.
     UNet_init rt nch ncl bil = Inr net \<and>
     fst (DoubleConv_forward rt tr (inc net) x) = Inr x1 \<and> dims x1 = [B, 64, H, W] \<and>
     fst (Down_forward rt tr (down1 net) x1) = Inr x2 \<and>
       dims x2 = [B, 128, H div 2, W div 2] \<and>
     fst (Down_forward rt tr (down2 net) x2) = Inr x3 \<and>
       dims x3 = [B, 256, H div 4, W div 4] \<and>
     fst (Down_forward rt tr (down3 net) x3) = Inr x4 \<and>
       dims x4 = [B, 512, H div 8, W div 8] \<and>
     fst (Down_forward rt tr (down4 net) x4) = Inr x5 \<and>
       dims x5 = [B, if bil then 512 else 1024, H div 16, W div 16] \<and>
     fst (Up_forward rt tr (up1 net) x5 x4) = Inr y1 \<and>
       dims y1 = [B, if bil then 256 else 512, H div 8, W div 8] \<and>
     fst (Up_forward rt tr (up2 net) y1 x3) = Inr y2 \<and>
       dims y2 = [B, if bil then 128 else 256, H div 4, W div 4] \<and>
     fst (Up_forward rt tr (up3 net) y2 x2) = Inr y3 \<and>
       dims y3 = [B, if bil then 64 else 128, H div 2, W div 2] \<and>
     fst (Up_forward rt tr (up4 net) y3 x1) = Inr y4 \<and> dims y4 = [B, 64, H, W] \<and>
     fst (OutConv_forward rt tr (outc net) y4) = Inr logits \<and>
       dims logits = [B, ncl, H, W] \<and>
     fst (UNet_forward rt (net\<lparr>training := tr\<rparr>) x) = Inr logits"
proof -
  let ?net = "UNet_body rt nch ncl bil"
  have blocks: "inc (?net\<lparr>training := tr\<rparr>) = inc ?net"
    "down1 (?net\<lparr>training := tr\<rparr>) = down1 ?net" "down2 (?net\<lparr>training := tr\<rparr>) = down2 ?net"
    "down3 (?net\<lparr>training := tr\<rparr>) = down3 ?net" "down4 (?net\<lparr>training := tr\<rparr>) = down4 ?net"
    "up1 (?net\<lparr>training := tr\<rparr>) = up1 ?net" "up2 (?net\<lparr>training := tr\<rparr>) = up2 ?net"
    "up3 (?net\<lparr>training := tr\<rparr>) = up3 ?net" "up4 (?net\<lparr>training := tr\<rparr>) = up4 ?net"
    "outc (?net\<lparr>training := tr\<rparr>) = outc ?net"
    by simp_all
  from UNet_forward_trace[OF assms refl, of rt bil, unfolded blocks]
    UNet_init_ok[of rt nch ncl bil]
  show ?thesis by blast
qed

text \<open>
  An instance: three input channels, two classes, bilinear upsampling, a batch of two
  images of 64 by 64 pixels.
\<close>

theorem UNet_channel_schedule_witness:
  "\<forall>rt :: real runtime. \<exists>net x1 x2 x3 x4 x5 y1 y2 y3 y4 logits.
     UNet_init rt 3 2 True = Inr net \<and>
     fst (DoubleConv_forward rt True (inc net) (torch_zeros [2, 3, 64, 64])) = Inr x1 \<and>
       dims x1 = [2, 64, 64, 64] \<and>
     fst (Down_forward rt True (down1 net) x1) = Inr x2 \<and> dims x2 = [2, 128, 32, 32] \<and>
     fst (Down_forward rt True (down2 net) x2) = Inr x3 \<and> dims x3 = [2, 256, 16, 16] \<and>
     fst (Down_forward rt True (down3 net) x3) = Inr x4 \<and> dims x4 = [2, 512, 8, 8] \<and>
     fst (Down_forward rt True (down4 net) x4) = Inr x5 \<and> dims x5 = [2, 512, 4, 4] \<and>
     fst (Up_forward rt True (up1 net) x5 x4) = Inr y1 \<and> dims y1 = [2, 256, 8, 8] \<and>
     fst (Up_forward rt True (up2 net) y1 x3) = Inr y2 \<and> dims y2 = [2, 128, 16, 16] \<and>
     fst (Up_forward rt True (up3 net) y2 x2) = Inr y3 \<and> dims y3 = [2, 64, 32, 32] \<and>
     fst (Up_forward rt True (up4 net) y3 x1) = Inr y4 \<and> dims y4 = [2, 64, 64, 64] \<and>
     fst (OutConv_forward rt True (outc net) y4) = Inr logits \<and> dims logits = [2, 2, 64, 64] \<and>
     fst (UNet_forward rt (net\<lparr>training := True\<rparr>) (torch_zeros [2, 3, 64, 64])) = Inr logits"
proof
  fix rt :: "real runtime"
  have fit: "(0::nat) < 3" "(0::nat) < 2" "(16::nat) \<le> 64" "(16::nat) \<le> 64"
    "True \<longrightarrow> (2::nat) * (64 div 16) * (64 div 16) \<noteq> 1"
    "dims (torch_zeros [2, 3, 64, 64] :: real tensor) = [2, 3, 64, 64]"
    by (simp_all add: torch_zeros_def)
  from UNet_channel_schedule[OF fit, of rt True]
  show "\<exists>net x1 x2 x3 x4 x5 y1 y2 y3 y4 logits.
     UNet_init rt 3 2 True = Inr net \<and>
     fst (DoubleConv_forward rt True (inc net) (torch_zeros [2, 3, 64, 64])) = Inr x1 \<and>
       dims x1 = [2, 64, 64, 64] \<and>
     fst (Down_forward rt True (down1 net) x1) = Inr x2 \<and> dims x2 = [2, 128, 32, 32] \<and>
     fst (Down_forward rt True (down2 net) x2) = Inr x3 \<and> dims x3 = [2, 256, 16, 16] \<and>
     fst (Down_forward rt True (down3 net) x3) = Inr x4 \<and> dims x4 = [2, 512, 8, 8] \<and>
     fst (Down_forward rt True (down4 net) x4) = Inr x5 \<and> dims x5 = [2, 512, 4, 4] \<and>
     fst (Up_forward rt True (up1 net) x5 x4) = Inr y1 \<and> dims y1 = [2, 256, 8, 8] \<and>
     fst (Up_forward rt True (up2 net) y1 x3) = Inr y2 \<and> dims y2 = [2, 128, 16, 16] \<and>
     fst (Up_forward rt True (up3 net) y2 x2) = Inr y3 \<and> dims y3 = [2, 64, 32, 32] \<and>
     fst (Up_forward rt True (up4 net) y3 x1) = Inr y4 \<and> dims y4 = [2, 64, 64, 64] \<and>
     fst (OutConv_forward rt True (outc net) y4) = Inr logits \<and> dims logits = [2, 2, 64, 64] \<and>
     fst (UNet_forward rt (net\<lparr>training := True\<rparr>) (torch_zeros [2, 3, 64, 64])) = Inr logits"
    by simp
qed


section \<open>Down and AvgDown\<close>

lemma max_pool_elem:
  fixes x :: "'a::linorder tensor"
  shows "window_max (map (elem x) (window 2 [n, c, i, j])) =
     Max {elem x [n, c, 2 * i, 2 * j], elem x [n, c, 2 * i, 2 * j + 1],
          elem x [n, c, 2 * i + 1, 2 * j], elem x [n, c, 2 * i + 1, 2 * j + 1]}"
  unfolding window_2 list.map by (rule window_max_4)

lemma avg_pool_elem:
  "window_mean (map (elem x) (window 2 [n, c, i, j])) =
     (elem x [n, c, 2 * i, 2 * j] + elem x [n, c, 2 * i, 2 * j + 1] +
      elem x [n, c, 2 * i + 1, 2 * j] + elem x [n, c, 2 * i + 1, 2 * j + 1]) / (1 + 1 + 1 + 1)"
  unfolding window_2 list.map by (rule window_mean_4)

lemma Down_init_seq:
  "fst (Down_forward rt tr (Down_init rt name cin cout) a) =
     bind_res (fst (layer_forward rt tr (MaxPool2d 2) a))
       (\<lambda>p. fst (DoubleConv_forward rt tr
                   (DoubleConv_init rt (name @ ''.maxpool_conv.1'') cin cout None) p))"
  unfolding fst_Down_forward_seq by (simp add: Down_init_def)

lemma AvgDown_init_seq:
  "fst (AvgDown_forward rt tr (AvgDown_init rt name cin cout) a) =
     bind_res (fst (layer_forward rt tr (AvgPool2d 2) a))
       (\<lambda>p. fst (DoubleConv_forward rt tr
                   (DoubleConv_init rt (name @ ''.avgpool_conv.1'') cin cout None) p))"
  unfolding fst_AvgDown_forward_seq by (simp add: AvgDown_init_def)

lemma Down_forward_steps:
  assumes "dims x = [b, cin, h, w]" "0 < cin" "0 < cout" "2 \<le> h" "2 \<le> w"
    and "tr \<longrightarrow> b * (h div 2) * (w div 2) \<noteq> 1"
  shows "\<exists>p y.
     fst (layer_forward rt tr (fst (maxpool_conv (Down_init rt name cin cout))) x) = Inr p \<and>
     dims p = [b, cin, h div 2, w div 2] \<and>
     (\<forall>n c i j. elem p [n, c, i, j] =
        Max {elem x [n, c, 2 * i, 2 * j], elem x [n, c, 2 * i, 2 * j + 1],
             elem x [n, c, 2 * i + 1, 2 * j], elem x [n, c, 2 * i + 1, 2 * j + 1]}) \<and>
     fst (DoubleConv_forward rt tr (snd (maxpool_conv (Down_init rt name cin cout))) p) = Inr y \<and>
     fst (Down_forward rt tr (Down_init rt name cin cout) x) = Inr y \<and>
     dims y = [b, cout, h div 2, w div 2]"
proof -
  let ?p = "\<lparr>dims = [b, cin, h div 2, w div 2],
             elem = (\<lambda>idx. window_max (map (elem x) (window 2 idx)))\<rparr>"
  let ?dc = "DoubleConv_init rt (name @ ''.maxpool_conv.1'') cin cout None"
  have pos: "0 < h div 2" "0 < w div 2" using assms(4,5) by auto
  have m: "maxpool_conv (Down_init rt name cin cout) = (MaxPool2d 2, ?dc)"
    by (simp add: Down_init_def)
  have p: "fst (layer_forward rt tr (MaxPool2d 2) x) = Inr ?p"
    using assms(1,2,4,5) by (rule fst_max_pool)
  have dp: "dims ?p = [b, cin, h div 2, w div 2]" by simp
  have ep: "elem ?p [n, c, i, j] =
        Max {elem x [n, c, 2 * i, 2 * j], elem x [n, c, 2 * i, 2 * j + 1],
             elem x [n, c, 2 * i + 1, 2 * j], elem x [n, c, 2 * i + 1, 2 * j + 1]}" for n c i j
    unfolding tensor.select_convs by (rule max_pool_elem)
  from fst_DoubleConv_forward[OF dp assms(2,3) pos assms(6)]
  obtain y where y: "fst (DoubleConv_forward rt tr ?dc ?p) = Inr y"
    and dy: "dims y = [b, cout, h div 2, w div 2]" by blast
  have r: "fst (Down_forward rt tr (Down_init rt name cin cout) x) = Inr y"
    unfolding Down_init_seq p bind_res_def sum.case by (rule y)
  show ?thesis
    unfolding m fst_conv snd_conv using p dp ep y r dy by blast
qed

lemma AvgDown_forward_steps:
  assumes "dims x = [b, cin, h, w]" "0 < cin" "0 < cout" "2 \<le> h" "2 \<le> w"
    and "tr \<longrightarrow> b * (h div 2) * (w div 2) \<noteq> 1"
  shows "\<exists>p y.
     fst (layer_forward rt tr (fst (avgpool_conv (AvgDown_init rt name cin cout))) x) = Inr p \<and>
     dims p = [b, cin, h div 2, w div 2] \<and>
     (\<forall>n c i j. elem p [n, c, i, j] =
        (elem x [n, c, 2 * i, 2 * j] + elem x [n, c, 2 * i, 2 * j + 1] +
         elem x [n, c, 2 * i + 1, 2 * j] + elem x [n, c, 2 * i + 1, 2 * j + 1])
        / (1 + 1 + 1 + 1)) \<and>
     fst (DoubleConv_forward rt tr (snd (avgpool_conv (AvgDown_init rt name cin cout))) p) = Inr y \<and>
     fst (AvgDown_forward rt tr (AvgDown_init rt name cin cout) x) = Inr y \<and>
     dims y = [b, cout, h div 2, w div 2]"
proof -
  let ?p = "\<lparr>dims = [b, cin, h div 2, w div 2],
             elem = (\<lambda>idx. window_mean (map (elem x) (window 2 idx)))\<rparr>"
  let ?dc = "DoubleConv_init rt (name @ ''.avgpool_conv.1'') cin cout None"
  have pos: "0 < h div 2" "0 < w div 2" using assms(4,5) by auto
  have m: "avgpool_conv (AvgDown_init rt name cin cout) = (AvgPool2d 2, ?dc)"
    by (simp add: AvgDown_init_def)
  have p: "fst (layer_forward rt tr (AvgPool2d 2) x) = Inr ?p"
    using assms(1,2,4,5) by (rule fst_avg_pool)
  have dp: "dims ?p = [b, cin, h div 2, w div 2]" by simp
  have ep: "elem ?p [n, c, i, j] =
        (elem x [n, c, 2 * i, 2 * j] + elem x [n, c, 2 * i, 2 * j + 1] +
         elem x [n, c, 2 * i + 1, 2 * j] + elem x [n, c, 2 * i + 1, 2 * j + 1])
        / (1 + 1 + 1 + 1)" for n c i j
    unfolding tensor.select_convs by (rule avg_pool_elem)
  from fst_DoubleConv_forward[OF dp assms(2,3) pos assms(6)]
  obtain y where y: "fst (DoubleConv_forward rt tr ?dc ?p) = Inr y"
    and dy: "dims y = [b, cout, h div 2, w div 2]" by blast
  have r: "fst (AvgDown_forward rt tr (AvgDown_init rt name cin cout) x) = Inr y"
    unfolding AvgDown_init_seq p bind_res_def sum.case by (rule y)
  show ?thesis
    unfolding m fst_conv snd_conv using p dp ep y r dy by blast
qed

text \<open>
  Claim C7, as amended. Let Down and AvgDown be built with positive channel counts
  \<open>C_in\<close> and \<open>C_out\<close>. On every input feature map of shape \<open>(B, C_in, H, W)\<close> with
  \<open>H \<ge> 2\<close> and \<open>W \<ge> 2\<close>, and with the block in evaluation mode or
  \<open>B * (H div 2) * (W div 2) \<noteq> 1\<close>, \<^verbatim>\<open>Down.forward\<close> and \<^verbatim>\<open>AvgDown.forward\<close> each
  return a feature map of shape \<open>(B, C_out, H div 2, W div 2)\<close>. In both the pooling layer
  runs first and the DoubleConv runs on its output (on every input: an error of the
  pooling layer is the result). The pooling of Down propagates the maximum of each 2 by 2
  window, that of AvgDown the mean of each 2 by 2 window: the element at \<open>(n, c, i, j)\<close>
  of the pooled map is the maximum, or the sum divided by four, of the input elements at
  rows \<open>2i\<close>, \<open>2i + 1\<close> and columns \<open>2j\<close>, \<open>2j + 1\<close>.
\<close>

theorem Down_AvgDown_forward:
  assumes "dims x = [b, cin, h, w]" and "0 < cin" and "0 < cout" and "2 \<le> h" and "2 \<le> w"
    and "tr \<longrightarrow> b * (h div 2) * (w div 2) \<noteq> 1"
  shows
    "(\<exists>p y.
       fst (layer_forward rt tr (fst (maxpool_conv (Down_init rt name cin cout))) x) = Inr p \<and>
       dims p = [b, cin, h div 2, w div 2] \<and>
       (\<forall>n c i j. elem p [n, c, i, j] =
          Max {elem x [n, c, 2 * i, 2 * j], elem x [n, c, 2 * i, 2 * j + 1],
               elem x [n, c, 2 * i + 1, 2 * j], elem x [n, c, 2 * i + 1, 2 * j + 1]}) \<and>
       fst (DoubleConv_forward rt tr (snd (maxpool_conv (Down_init rt name cin cout))) p) = Inr y \<and>
       fst (Down_forward rt tr (Down_init rt name cin cout) x) = Inr y \<and>
       dims y = [b, cout, h div 2, w div 2]) \<and>
     (\<exists>q z.
       fst (layer_forward rt tr (fst (avgpool_conv (AvgDown_init rt name cin cout))) x) = Inr q \<and>
       dims q = [b, cin, h div 2, w div 2] \<and>
       (\<forall>n c i j. elem q [n, c, i, j] =
          (elem x [n, c, 2 * i, 2 * j] + elem x [n, c, 2 * i, 2 * j + 1] +
           elem x [n, c, 2 * i + 1, 2 * j] + elem x [n, c, 2 * i + 1, 2 * j + 1])
          / (1 + 1 + 1 + 1)) \<and>
       fst (DoubleConv_forward rt tr (snd (avgpool_conv (AvgDown_init rt name cin cout))) q) = Inr z \<and>
       fst (AvgDown_forward rt tr (AvgDown_init rt name cin cout) x) = Inr z \<and>
       dims z = [b, cout, h div 2, w div 2]) \<and>
     (\<forall>a. fst (Down_forward rt tr (Down_init rt name cin cout) a) =
        bind_res (fst (layer_forward rt tr (MaxPool2d 2) a))
          (\<lambda>p. fst (DoubleConv_forward rt tr
                      (DoubleConv_init rt (name @ ''.maxpool_conv.1'') cin cout None) p))) \<and>
     (\<forall>a. fst (AvgDown_forward rt tr (AvgDown_init rt name cin cout) a) =
        bind_res (fst (layer_forward rt tr (AvgPool2d 2) a))
          (\<lambda>q. fst (DoubleConv_forward rt tr
                      (DoubleConv_init rt (name @ ''.avgpool_conv.1'') cin cout None) q)))"
  using Down_forward_steps[OF assms, of rt name] AvgDown_forward_steps[OF assms, of rt name]
    Down_init_seq[of rt tr name cin cout] AvgDown_init_seq[of rt tr name cin cout]
  by blast

text \<open>
  An instance with an odd height: 64 channels of 101 by 7 pixels, the element at row
  \<open>r\<close> and column \<open>s\<close> being \<open>2r + s\<close>.
\<close>

theorem Down_AvgDown_forward_witness:
  "\<forall>rt :: real runtime. \<exists>p y q z.
     fst (layer_forward rt True (MaxPool2d 2)
           \<lparr>dims = [1, 64, 101, 7], elem = (\<lambda>idx. real (2 * (idx ! 2) + idx ! 3))\<rparr>) = Inr p \<and>
     dims p = [1, 64, 50, 3] \<and> elem p [0, 0, 0, 0] = 3 \<and> elem p [0, 63, 49, 2] = 203 \<and>
     fst (Down_forward rt True (Down_init rt ''down1'' 64 128)
           \<lparr>dims = [1, 64, 101, 7], elem = (\<lambda>idx. real (2 * (idx ! 2) + idx ! 3))\<rparr>) = Inr y \<and>
     dims y = [1, 128, 50, 3] \<and>
     fst (layer_forward rt True (AvgPool2d 2)
           \<lparr>dims = [1, 64, 101, 7], elem = (\<lambda>idx. real (2 * (idx ! 2) + idx ! 3))\<rparr>) = Inr q \<and>
     dims q = [1, 64, 50, 3] \<and> elem q [0, 0, 0, 0] = 3 / 2 \<and> elem q [0, 63, 49, 2] = 403 / 2 \<and>
     fst (AvgDown_forward rt True (AvgDown_init rt ''down1'' 64 128)
           \<lparr>dims = [1, 64, 101, 7], elem = (\<lambda>idx. real (2 * (idx ! 2) + idx ! 3))\<rparr>) = Inr z \<and>
     dims z = [1, 128, 50, 3]"
proof
  fix rt :: "real runtime"
  let ?x = "\<lparr>dims = [1, 64, 101, 7], elem = (\<lambda>idx. real (2 * (idx ! 2) + idx ! 3))\<rparr>"
  have fit: "dims ?x = [1, 64, 101, 7]" "(0::nat) < 64" "(0::nat) < 128" "(2::nat) \<le> 101"
    "(2::nat) \<le> 7" "True \<longrightarrow> (1::nat) * (101 div 2) * (7 div 2) \<noteq> 1"
    by simp_all
  note r = Down_AvgDown_forward[OF fit, of rt "''down1''"]
  from r[THEN conjunct1] obtain p y where
    p: "fst (layer_forward rt True (fst (maxpool_conv (Down_init rt ''down1'' 64 128))) ?x) = Inr p"
      "dims p = [1, 64, 101 div 2, 7 div 2]"
    and ep: "\<And>n c i j. elem p [n, c, i, j] =
          Max {elem ?x [n, c, 2 * i, 2 * j], elem ?x [n, c, 2 * i, 2 * j + 1],
               elem ?x [n, c, 2 * i + 1, 2 * j], elem ?x [n, c, 2 * i + 1, 2 * j + 1]}"
    and y: "fst (Down_forward rt True (Down_init rt ''down1'' 64 128) ?x) = Inr y"
      "dims y = [1, 128, 101 div 2, 7 div 2]"
    by blast
  from r[THEN conjunct2, THEN conjunct1] obtain q z where
    q: "fst (layer_forward rt True (fst (avgpool_conv (AvgDown_init rt ''down1'' 64 128))) ?x) = Inr q"
      "dims q = [1, 64, 101 div 2, 7 div 2]"
    and eq: "\<And>n c i j. elem q [n, c, i, j] =
          (elem ?x [n, c, 2 * i, 2 * j] + elem ?x [n, c, 2 * i, 2 * j + 1] +
           elem ?x [n, c, 2 * i + 1, 2 * j] + elem ?x [n, c, 2 * i + 1, 2 * j + 1])
          / (1 + 1 + 1 + 1)"
    and z: "fst (AvgDown_forward rt True (AvgDown_init rt ''down1'' 64 128) ?x) = Inr z"
      "dims z = [1, 128, 101 div 2, 7 div 2]"
    by blast
  have "elem p [0, 0, 0, 0] = 3" "elem p [0, 63, 49, 2] = 203"
    "elem q [0, 0, 0, 0] = 3 / 2" "elem q [0, 63, 49, 2] = 403 / 2"
    by (simp_all add: ep eq)
  moreover from p q have
    "fst (layer_forward rt True (MaxPool2d 2) ?x) = Inr p" "dims p = [1, 64, 50, 3]"
    "fst (layer_forward rt True (AvgPool2d 2) ?x) = Inr q" "dims q = [1, 64, 50, 3]"
    by (simp_all add: Down_init_def AvgDown_init_def)
  moreover from y z have "dims y = [1, 128, 50, 3]" "dims z = [1, 128, 50, 3]"
    by simp_all
  ultimately show "\<exists>p y q z.
     fst (layer_forward rt True (MaxPool2d 2) ?x) = Inr p \<and>
     dims p = [1, 64, 50, 3] \<and> elem p [0, 0, 0, 0] = 3 \<and> elem p [0, 63, 49, 2] = 203 \<and>
     fst (Down_forward rt True (Down_init rt ''down1'' 64 128) ?x) = Inr y \<and>
     dims y = [1, 128, 50, 3] \<and>
     fst (layer_forward rt True (AvgPool2d 2) ?x) = Inr q \<and>
     dims q = [1, 64, 50, 3] \<and> elem q [0, 0, 0, 0] = 3 / 2 \<and> elem q [0, 63, 49, 2] = 403 / 2 \<and>
     fst (AvgDown_forward rt True (AvgDown_init rt ''down1'' 64 128) ?x) = Inr z \<and>
     dims z = [1, 128, 50, 3]"
    using y(1) z(1) by blast
qed

text \<open>
  The claim as first stated, for every input feature map, fails in three ways: a map of
  height or width 1 cannot be pooled (the runtime raises RuntimeError instead of returning
  an empty map); in training mode a single 2 by 2 map is pooled to one value per channel,
  on which batch normalisation raises ValueError; and a block built with \<open>C_out = 0\<close>
  raises RuntimeError at its first convolution instead of returning a map without
  channels.
\<close>

theorem Down_AvgDown_forward_counterexample:
  "\<forall>rt :: real runtime.
     fst (Down_forward rt True (Down_init rt ''down1'' 64 128) (torch_zeros [1, 64, 1, 1]))
       = Inl RuntimeError \<and>
     fst (AvgDown_forward rt True (AvgDown_init rt ''down1'' 64 128) (torch_zeros [1, 64, 1, 1]))
       = Inl RuntimeError \<and>
     fst (Down_forward rt True (Down_init rt ''down1'' 64 128) (torch_zeros [1, 64, 2, 2]))
       = Inl ValueError \<and>
     fst (AvgDown_forward rt True (AvgDown_init rt ''down1'' 64 128) (torch_zeros [1, 64, 2, 2]))
       = Inl ValueError \<and>
     fst (Down_forward rt True (Down_init rt ''down1'' 64 0) (torch_zeros [1, 64, 4, 4]))
       = Inl RuntimeError \<and>
     fst (AvgDown_forward rt True (AvgDown_init rt ''down1'' 64 0) (torch_zeros [1, 64, 4, 4]))
       = Inl RuntimeError"
proof
  fix rt :: "real runtime"
  have a: "fst (Down_forward rt True (Down_init rt ''down1'' 64 128) (torch_zeros [1, 64, 1, 1]))
       = Inl RuntimeError"
    "fst (AvgDown_forward rt True (AvgDown_init rt ''down1'' 64 128) (torch_zeros [1, 64, 1, 1]))
       = Inl RuntimeError"
    by (simp_all add: Down_init_seq AvgDown_init_seq torch_zeros_def bind_res_def)
  have d: "dims (torch_zeros [1, 64, 2, 2] :: real tensor) = [1, 64, 2, 2]"
    by (simp add: torch_zeros_def)
  have n: "(0::nat) < 64" "(0::nat) < 128" "(2::nat) \<le> 2" "(1::nat) * (2 div 2) * (2 div 2) = 1"
    by simp_all
  note b = fst_Down_forward_single[OF d n(1,2,3,3,4), of rt "''down1''"]
    fst_AvgDown_forward_single[OF d n(1,2,3,3,4), of rt "''down1''"]
  have c: "fst (Down_forward rt True (Down_init rt ''down1'' 64 0) (torch_zeros [1, 64, 4, 4]))
       = Inl RuntimeError"
    "fst (AvgDown_forward rt True (AvgDown_init rt ''down1'' 64 0) (torch_zeros [1, 64, 4, 4]))
       = Inl RuntimeError"
    by (simp_all add: Down_init_seq AvgDown_init_seq torch_zeros_def bind_res_def
        DoubleConv_forward_def DoubleConv_init_def nn_Conv2d_def)
  from a b c show "fst (Down_forward rt True (Down_init rt ''down1'' 64 128) (torch_zeros [1, 64, 1, 1]))
       = Inl RuntimeError \<and>
     fst (AvgDown_forward rt True (AvgDown_init rt ''down1'' 64 128) (torch_zeros [1, 64, 1, 1]))
       = Inl RuntimeError \<and>
     fst (Down_forward rt True (Down_init rt ''down1'' 64 128) (torch_zeros [1, 64, 2, 2]))
       = Inl ValueError \<and>
     fst (AvgDown_forward rt True (AvgDown_init rt ''down1'' 64 128) (torch_zeros [1, 64, 2, 2]))
       = Inl ValueError \<and>
     fst (Down_forward rt True (Down_init rt ''down1'' 64 0) (torch_zeros [1, 64, 4, 4]))
       = Inl RuntimeError \<and>
     fst (AvgDown_forward rt True (AvgDown_init rt ''down1'' 64 0) (torch_zeros [1, 64, 4, 4]))
       = Inl RuntimeError"
    by blast
qed


section \<open>Up\<close>

lemma up_Up_init:
  "up (Up_init rt name cin cout bil)
   = (if bil then Upsample 2 else nn_ConvTranspose2d rt (name @ ''.up'') cin (cin div 2) 2 2)"
  by (simp add: Up_init_def)

text \<open>
  Claim C4. \<^verbatim>\<open>Up.forward\<close> on a coarser \<open>x1\<close> of shape \<open>(b, c1, h, w)\<close> and a skip
  tensor \<open>x2\<close> of shape \<open>(b, c2, H, W)\<close> whose channel counts fit the layer runs these
  steps in this order. It upsamples \<open>x1\<close> by 2 along both spatial axes, with the bilinear
  interpolation layer (channels kept) or with a transposed convolution to half the
  channels of the layer, giving \<open>u\<close>. With \<open>diffY\<close> and \<open>diffX\<close> the differences of
  height and width between \<open>x2\<close> and \<open>u\<close>, it pads \<open>u\<close> with zeros, \<open>diffX div 2\<close> columns
  on the left, \<open>diffX - diffX div 2\<close> on the right, \<open>diffY div 2\<close> rows on top and
  \<open>diffY - diffY div 2\<close> at the bottom, giving \<open>p\<close> of the spatial size of \<open>x2\<close>. It
  concatenates \<open>x2\<close> and \<open>p\<close> along the channel axis, the channels of \<open>x2\<close> first, giving
  \<open>y\<close>. It applies the DoubleConv to \<open>y\<close>, and the result, with \<open>C_out\<close> channels at the
  spatial size of \<open>x2\<close>, is the result of \<^verbatim>\<open>Up.forward\<close>. On every pair of inputs the
  result is that of the three steps in sequence, the first error being the result.
\<close>

theorem Up_forward_steps:
  assumes "dims x1 = [b, c1, h, w]" and "dims x2 = [b, c2, H, W]"
    and "0 < h" and "0 < w" and "0 < H" and "0 < W" and "0 < c1" and "0 < cout"
    and "if bil then c1 + c2 = cin else c1 = cin \<and> 2 \<le> cin \<and> c2 + cin div 2 = cin"
    and "tr \<longrightarrow> b * H * W \<noteq> 1"
    and "0 < c2"
  shows
    "let self = Up_init rt name cin cout bil;
         cu = (if bil then c1 else cin div 2);
         diffY = int H - int (2 * h);
         diffX = int W - int (2 * w)
     in up self = (if bil then Upsample 2
                   else nn_ConvTranspose2d rt (name @ ''.up'') cin (cin div 2) 2 2) \<and>
        (\<exists>u p y out.
           fst (layer_forward rt tr (up self) x1) = Inr u \<and>
           dims u = [b, cu, 2 * h, 2 * w] \<and>
           F_pad u [diffX div 2, diffX - diffX div 2, diffY div 2, diffY - diffY div 2] = Inr p \<and>
           dims p = [b, cu, H, W] \<and>
           (\<forall>n k i j. n < b \<longrightarrow> k < cu \<longrightarrow>
              elem p [n, k, i, j] =
              (if diffY div 2 \<le> int i \<and> int i < diffY div 2 + int (2 * h) \<and>
                  diffX div 2 \<le> int j \<and> int j < diffX div 2 + int (2 * w)
               then elem u [n, k, nat (int i - diffY div 2), nat (int j - diffX div 2)]
               else 0)) \<and>
           torch_cat [x2, p] 1 = Inr y \<and>
           dims y = [b, c2 + cu, H, W] \<and>
           (\<forall>n k i j. elem y [n, k, i, j] =
              (if k < c2 then elem x2 [n, k, i, j] else elem p [n, k - c2, i, j])) \<and>
           pad_and_cat u x2 = Inr y \<and>
           fst (DoubleConv_forward rt tr (conv self) y) = Inr out \<and>
           dims out = [b, cout, H, W] \<and>
           fst (Up_forward rt tr self x1 x2) = Inr out) \<and>
        (\<forall>a s. fst (Up_forward rt tr self a s) =
           bind_res (fst (layer_forward rt tr (up self) a)) (\<lambda>u.
           bind_res (pad_and_cat u s) (\<lambda>y.
           fst (DoubleConv_forward rt tr (conv self) y))))"
proof -
  let ?self = "Up_init rt name cin cout bil"
  let ?cu = "if bil then c1 else cin div 2"
  let ?dY = "int H - int (2 * h)"
  let ?dX = "int W - int (2 * w)"
  let ?pad = "[?dX div 2, ?dX - ?dX div 2, ?dY div 2, ?dY - ?dY div 2]"
  have "bil \<or> c1 = cin \<and> 2 \<le> cin" using assms(9) by (auto split: if_splits)
  from fst_up_layer[OF assms(1,3,4,7) this, of rt tr name cout]
  obtain u where u: "fst (layer_forward rt tr (up ?self) x1) = Inr u"
    and du: "dims u = [b, ?cu, 2 * h, 2 * w]" by blast
  from F_pad_to_size[OF du, of W H]
  obtain p where p: "F_pad u ?pad = Inr p"
    and dp: "dims p = [b, ?cu, H, W]"
    and ep: "\<forall>n k i j. n < b \<longrightarrow> k < ?cu \<longrightarrow>
              elem p [n, k, i, j] =
              (if ?dY div 2 \<le> int i \<and> int i < ?dY div 2 + int (2 * h) \<and>
                  ?dX div 2 \<le> int j \<and> int j < ?dX div 2 + int (2 * w)
               then elem u [n, k, nat (int i - ?dY div 2), nat (int j - ?dX div 2)]
               else 0)" by blast
  from torch_cat_channels[OF assms(2) dp]
  obtain y where y: "torch_cat [x2, p] 1 = Inr y" and dy: "dims y = [b, c2 + ?cu, H, W]"
    and ey: "\<forall>n k i j. elem y [n, k, i, j] =
              (if k < c2 then elem x2 [n, k, i, j] else elem p [n, k - c2, i, j])" by blast
  have pc: "pad_and_cat u x2 = Inr y"
    unfolding pad_and_cat_eq[OF du assms(2)] p bind_res_def sum.case by (rule y)
  have c: "c2 + ?cu = cin" "0 < cin" using assms(7,9) by (auto split: if_splits)
  from dy c have dy': "dims y = [b, cin, H, W]" by simp
  from fst_DoubleConv_forward[OF dy' c(2) assms(8,5,6,10),
      of rt "name @ ''.conv''" "if bil then Some (cin div 2) else None"]
  obtain out where out: "fst (DoubleConv_forward rt tr (conv ?self) y) = Inr out"
    and dout: "dims out = [b, cout, H, W]"
    unfolding conv_Up_init by blast
  have r: "fst (Up_forward rt tr ?self x1 x2) = Inr out"
    unfolding fst_Up_forward_seq u pc bind_res_def sum.case by (rule out)
  have steps: "\<exists>u p y out.
           fst (layer_forward rt tr (up ?self) x1) = Inr u \<and>
           dims u = [b, ?cu, 2 * h, 2 * w] \<and>
           F_pad u ?pad = Inr p \<and>
           dims p = [b, ?cu, H, W] \<and>
           (\<forall>n k i j. n < b \<longrightarrow> k < ?cu \<longrightarrow>
              elem p [n, k, i, j] =
              (if ?dY div 2 \<le> int i \<and> int i < ?dY div 2 + int (2 * h) \<and>
                  ?dX div 2 \<le> int j \<and> int j < ?dX div 2 + int (2 * w)
               then elem u [n, k, nat (int i - ?dY div 2), nat (int j - ?dX div 2)]
               else 0)) \<and>
           torch_cat [x2, p] 1 = Inr y \<and>
           dims y = [b, c2 + ?cu, H, W] \<and>
           (\<forall>n k i j. elem y [n, k, i, j] =
              (if k < c2 then elem x2 [n, k, i, j] else elem p [n, k - c2, i, j])) \<and>
           pad_and_cat u x2 = Inr y \<and>
           fst (DoubleConv_forward rt tr (conv ?self) y) = Inr out \<and>
           dims out = [b, cout, H, W] \<and>
           fst (Up_forward rt tr ?self x1 x2) = Inr out"
    using u du p dp ep y dy ey pc out dout r by blast
  show ?thesis
    unfolding Let_def using up_Up_init[of rt name cin cout bil] steps
      fst_Up_forward_seq[of rt tr ?self] by blast
qed

text \<open>
  An instance without bilinear upsampling: \<open>x1\<close> with 128 channels of 5 by 5 pixels and
  a skip tensor with 64 channels of 11 by 10 pixels, so that one row of zeros is added at
  the bottom.
\<close>

theorem Up_forward_steps_witness:
  "\<forall>rt :: real runtime. \<exists>u p y out.
     fst (layer_forward rt True (up (Up_init rt ''up4'' 128 64 False))
           \<lparr>dims = [1, 128, 5, 5], elem = (\<lambda>idx. 5)\<rparr>) = Inr u \<and>
     dims u = [1, 64, 10, 10] \<and>
     F_pad u [0, 0, 0, 1] = Inr p \<and>
     dims p = [1, 64, 11, 10] \<and>
     elem p [0, 0, 9, 9] = elem u [0, 0, 9, 9] \<and>
     elem p [0, 0, 10, 9] = 0 \<and>
     torch_cat [\<lparr>dims = [1, 64, 11, 10], elem = (\<lambda>idx. 7)\<rparr>, p] 1 = Inr y \<and>
     dims y = [1, 128, 11, 10] \<and>
     elem y [0, 63, 10, 9] = 7 \<and>
     elem y [0, 64, 9, 9] = elem u [0, 0, 9, 9] \<and>
     elem y [0, 64, 10, 9] = 0 \<and>
     fst (Up_forward rt True (Up_init rt ''up4'' 128 64 False)
           \<lparr>dims = [1, 128, 5, 5], elem = (\<lambda>idx. 5)\<rparr>
           \<lparr>dims = [1, 64, 11, 10], elem = (\<lambda>idx. 7)\<rparr>) = Inr out \<and>
     dims out = [1, 64, 11, 10]"
proof
  fix rt :: "real runtime"
  let ?x1 = "\<lparr>dims = [1, 128, 5, 5], elem = (\<lambda>idx. 5 :: real)\<rparr>"
  let ?x2 = "\<lparr>dims = [1, 64, 11, 10], elem = (\<lambda>idx. 7 :: real)\<rparr>"
  let ?self = "Up_init rt ''up4'' 128 64 False"
  have fit: "dims ?x1 = [1, 128, 5, 5]" "dims ?x2 = [1, 64, 11, 10]"
    "(0::nat) < 5" "(0::nat) < 5" "(0::nat) < 11" "(0::nat) < 10" "(0::nat) < 128" "(0::nat) < 64"
    "if False then 128 + 64 = (128::nat)
     else (128::nat) = 128 \<and> (2::nat) \<le> 128 \<and> 64 + 128 div 2 = (128::nat)"
    "True \<longrightarrow> (1::nat) * 11 * 10 \<noteq> 1" "(0::nat) < 64"
    by simp_all
  note r = Up_forward_steps[OF fit, of rt "''up4''", unfolded Let_def, THEN conjunct2, THEN conjunct1]
  from r obtain u p y out where
    u: "fst (layer_forward rt True (up ?self) ?x1) = Inr u"
      "dims u = [1, if False then 128 else 128 div 2, 2 * 5, 2 * 5]"
    and p: "F_pad u [(int 10 - int (2 * 5)) div 2,
                     (int 10 - int (2 * 5)) - (int 10 - int (2 * 5)) div 2,
                     (int 11 - int (2 * 5)) div 2,
                     (int 11 - int (2 * 5)) - (int 11 - int (2 * 5)) div 2] = Inr p"
      "dims p = [1, if False then 128 else 128 div 2, 11, 10]"
    and ep: "\<forall>n k i j. n < 1 \<longrightarrow> k < (if False then 128 else 128 div 2) \<longrightarrow>
              elem p [n, k, i, j] =
              (if (int 11 - int (2 * 5)) div 2 \<le> int i \<and>
                  int i < (int 11 - int (2 * 5)) div 2 + int (2 * 5) \<and>
                  (int 10 - int (2 * 5)) div 2 \<le> int j \<and>
                  int j < (int 10 - int (2 * 5)) div 2 + int (2 * 5)
               then elem u [n, k, nat (int i - (int 11 - int (2 * 5)) div 2),
                            nat (int j - (int 10 - int (2 * 5)) div 2)]
               else 0)"
    and y: "torch_cat [?x2, p] 1 = Inr y"
      "dims y = [1, 64 + (if False then 128 else 128 div 2), 11, 10]"
    and ey: "\<forall>n k i j. elem y [n, k, i, j] =
              (if k < 64 then elem ?x2 [n, k, i, j] else elem p [n, k - 64, i, j])"
    and out: "fst (Up_forward rt True ?self ?x1 ?x2) = Inr out" "dims out = [1, 64, 11, 10]"
    by blast
  have e1: "elem p [0, 0, 9, 9] = elem u [0, 0, 9, 9]" "elem p [0, 0, 10, 9] = 0"
    using ep[rule_format, of 0 0 9 9] ep[rule_format, of 0 0 10 9] by simp_all
  have e2: "elem y [0, 63, 10, 9] = 7" "elem y [0, 64, 9, 9] = elem u [0, 0, 9, 9]"
    "elem y [0, 64, 10, 9] = 0"
    using ey[rule_format, of 0 63 10 9] ey[rule_format, of 0 64 9 9]
      ey[rule_format, of 0 64 10 9] e1 by simp_all
  from u(2) p y(2) have s: "dims u = [1, 64, 10, 10]" "F_pad u [0, 0, 0, 1] = Inr p"
    "dims p = [1, 64, 11, 10]" "dims y = [1, 128, 11, 10]"
    by simp_all
  show "\<exists>u p y out.
     fst (layer_forward rt True (up ?self) ?x1) = Inr u \<and>
     dims u = [1, 64, 10, 10] \<and>
     F_pad u [0, 0, 0, 1] = Inr p \<and>
     dims p = [1, 64, 11, 10] \<and>
     elem p [0, 0, 9, 9] = elem u [0, 0, 9, 9] \<and>
     elem p [0, 0, 10, 9] = 0 \<and>
     torch_cat [?x2, p] 1 = Inr y \<and>
     dims y = [1, 128, 11, 10] \<and>
     elem y [0, 63, 10, 9] = 7 \<and>
     elem y [0, 64, 9, 9] = elem u [0, 0, 9, 9] \<and>
     elem y [0, 64, 10, 9] = 0 \<and>
     fst (Up_forward rt True ?self ?x1 ?x2) = Inr out \<and>
     dims out = [1, 64, 11, 10]"
    using u(1) s e1 e2 y(1) out by blast
qed


section \<open>Shape mismatches\<close>

lemma conv2d_size_mismatch:
  assumes "length d \<noteq> 4 \<or> d ! 1 \<noteq> cin" and "length d \<noteq> 3 \<or> d ! 0 \<noteq> cin"
  shows "conv2d_size cin cout k p d = Inl RuntimeError"
  using assms by (cases "(cin, cout, k, p, d)" rule: conv2d_size.cases) auto

lemma conv2d_size_unbatched:
  assumes "length d = 3"
  shows "conv2d_size cin cout k p d = Inl RuntimeError \<or>
         (\<exists>d'. conv2d_size cin cout k p d = Inr d' \<and> length d' = 3)"
  using assms by (cases "(cin, cout, k, p, d)" rule: conv2d_size.cases) auto

lemma batch_norm_size_unbatched:
  assumes "length d \<noteq> 4"
  shows "batch_norm_size tr n t d = (Inl ValueError, t)"
  using assms by (cases "(tr, n, t, d)" rule: batch_norm_size.cases) auto

lemma Sequential_forward_mismatch:
  assumes "length (dims x) \<noteq> 4 \<or> dims x ! 1 \<noteq> cin"
  shows "fst (Sequential_forward rt tr
               (Conv2d cin m 3 1 wt None # BatchNorm2d m bw bb rm rv t # ls) x)
         \<in> {Inl RuntimeError, Inl ValueError}"
proof (cases "length (dims x) = 3")
  case True
  from conv2d_size_unbatched[OF True, of cin m 3 1] show ?thesis
  proof
    assume "conv2d_size cin m 3 1 (dims x) = Inl RuntimeError"
    then show ?thesis by (simp add: bind_res_def)
  next
    assume "\<exists>d'. conv2d_size cin m 3 1 (dims x) = Inr d' \<and> length d' = 3"
    then obtain d' where d': "conv2d_size cin m 3 1 (dims x) = Inr d'" "length d' = 3" by blast
    then have "batch_norm_size tr m t d' = (Inl ValueError, t)"
      by (intro batch_norm_size_unbatched) simp
    with d' show ?thesis by (simp add: bind_res_def)
  qed
next
  case False
  with assms have "conv2d_size cin m 3 1 (dims x) = Inl RuntimeError"
    by (intro conv2d_size_mismatch) auto
  then show ?thesis by (simp add: bind_res_def)
qed

lemma DoubleConv_forward_mismatch:
  assumes "length (dims x) \<noteq> 4 \<or> dims x ! 1 \<noteq> cin"
  shows "fst (DoubleConv_forward rt tr (DoubleConv_init rt name cin cout mid) x)
         \<in> {Inl RuntimeError, Inl ValueError}"
  using Sequential_forward_mismatch[OF assms]
  by (simp add: DoubleConv_forward_def DoubleConv_init_def nn_Conv2d_def nn_BatchNorm2d_def
      Let_def split_beta del: Sequential_forward.simps)

lemma DoubleConv_forward_wrong_channels:
  assumes "dims y = [b, c, h, w]" "c \<noteq> cin"
  shows "DoubleConv_forward rt tr (DoubleConv_init rt name cin cout mid) y
         = (Inl RuntimeError, DoubleConv_init rt name cin cout mid)"
  using assms
  by (simp add: DoubleConv_forward_def DoubleConv_init_def nn_Conv2d_def Let_def bind_res_def)

lemma DoubleConv_forward_no_channels:
  "fst (DoubleConv_forward rt tr (DoubleConv_init rt name 0 cout mid) a) = Inl RuntimeError"
proof -
  have "conv2d_size 0 m k p d = Inl RuntimeError" for m k p d
    by (cases "(0::nat, m, k, p, d)" rule: conv2d_size.cases) auto
  then show ?thesis
    by (simp add: DoubleConv_forward_def DoubleConv_init_def nn_Conv2d_def Let_def bind_res_def)
qed

lemma UNet_forward_stem_error:
  assumes "fst (DoubleConv_forward rt (training net) (inc net) x) = Inl e"
  shows "fst (UNet_forward rt net x) = Inl e"
  using assms by (simp add: UNet_forward_def fst_stage)

lemma UNet_forward_no_channels:
  "fst (UNet_forward rt ((UNet_body rt 0 ncl bil)\<lparr>training := tr\<rparr>) a) = Inl RuntimeError"
  by (rule UNet_forward_stem_error) (simp add: UNet_body_fields DoubleConv_forward_no_channels)

lemma Up_forward_no_channels:
  "fst (Up_forward rt tr (Up_init rt name 1 cout False) a s) = Inl RuntimeError"
proof -
  have "conv_transpose2d_size cin 0 k st d = Inl RuntimeError" for cin k st d
    by (cases "(cin, 0::nat, k, st, d)" rule: conv_transpose2d_size.cases) auto
  then show ?thesis
    by (simp add: fst_Up_forward_seq Up_init_def nn_ConvTranspose2d_def bind_res_def)
qed

text \<open>
  Claim C8, as amended. Constructing a network or a layer never fails, whatever the
  channel counts: the constructors run no operator and compare no channel counts. A
  layer built with channel counts that no input fits fails when it is run (a UNet with
  \<open>n_channels = 0\<close>, an Up layer whose transposed convolution has no output channel).
  An input that is not of shape \<open>(B, n_channels, H, W)\<close> makes \<^verbatim>\<open>UNet.forward\<close> fail inside
  the stem, at the first operator that rejects it, and the result of the forward pass is
  that error. For a 4-D input with a wrong channel count the operator is the first
  convolution of the stem, the error is a RuntimeError, and no layer has been touched. A
  block built for \<open>cin\<close> input channels fails in the same way on a feature map with
  another channel count.
\<close>

theorem shape_mismatch_raises:
  assumes "length (dims x) \<noteq> 4 \<or> dims x ! 1 \<noteq> nch" and "dims y = [b, c, h, w]" and "c \<noteq> cin"
  shows
    "let self = (UNet_body rt nch ncl bil)\<lparr>training := tr\<rparr> in
       UNet_init rt nch ncl bil = Inr (UNet_body rt nch ncl bil) \<and>
       fst (UNet_forward rt self x) = fst (DoubleConv_forward rt tr (inc self) x) \<and>
       fst (UNet_forward rt self x) \<in> {Inl RuntimeError, Inl ValueError} \<and>
       (length (dims x) = 4 \<longrightarrow>
          hd (double_conv (inc self)) = nn_Conv2d rt ''inc.double_conv.0'' nch 64 3 1 False \<and>
          fst (layer_forward rt tr (hd (double_conv (inc self))) x) = Inl RuntimeError \<and>
          UNet_forward rt self x = (Inl RuntimeError, self)) \<and>
       fst (DoubleConv_forward rt tr (DoubleConv_init rt name cin cout mid) y) = Inl RuntimeError \<and>
       fst (Down_forward rt tr (Down_init rt name cin cout) y) = Inl RuntimeError \<and>
       fst (AvgDown_forward rt tr (AvgDown_init rt name cin cout) y) = Inl RuntimeError \<and>
       fst (Up_forward rt tr (Up_init rt name cin cout False) y skip) = Inl RuntimeError \<and>
       fst (OutConv_forward rt tr (OutConv_init rt name cin cout) y) = Inl RuntimeError \<and>
       (\<forall>a. fst (UNet_forward rt ((UNet_body rt 0 ncl bil)\<lparr>training := tr\<rparr>) a)
             = Inl RuntimeError) \<and>
       (\<forall>a s. fst (Up_forward rt tr (Up_init rt name 1 cout False) a s) = Inl RuntimeError)"
proof -
  let ?self = "(UNet_body rt nch ncl bil)\<lparr>training := tr\<rparr>"
  have inc: "inc ?self = DoubleConv_init rt ''inc'' nch 64 None" and tr: "training ?self = tr"
    by (simp_all add: UNet_body_def Let_def)
  have stem: "fst (DoubleConv_forward rt tr (inc ?self) x) \<in> {Inl RuntimeError, Inl ValueError}"
    unfolding inc using assms(1) by (rule DoubleConv_forward_mismatch)
  then obtain e where e: "fst (DoubleConv_forward rt (training ?self) (inc ?self) x) = Inl e"
    unfolding tr by auto
  have same: "fst (UNet_forward rt ?self x) = fst (DoubleConv_forward rt tr (inc ?self) x)"
    using UNet_forward_stem_error[OF e] e unfolding tr by simp
  have four: "hd (double_conv (inc ?self)) = nn_Conv2d rt ''inc.double_conv.0'' nch 64 3 1 False \<and>
      fst (layer_forward rt tr (hd (double_conv (inc ?self))) x) = Inl RuntimeError \<and>
      UNet_forward rt ?self x = (Inl RuntimeError, ?self)" if "length (dims x) = 4"
  proof -
    from that obtain b' c' h' w' where x: "dims x = [b', c', h', w']"
      by (auto simp: numeral_eq_Suc length_Suc_conv)
    with assms(1) have c': "c' \<noteq> nch" by simp
    have "UNet_forward rt ?self x = (Inl RuntimeError, ?self)"
      unfolding UNet_forward_def
      by (simp add: inc stage_def DoubleConv_forward_wrong_channels[OF x c'])
    with c' show ?thesis
      by (simp add: inc x DoubleConv_init_def nn_Conv2d_def bind_res_def)
  qed
  have blocks:
    "fst (DoubleConv_forward rt tr (DoubleConv_init rt name cin cout mid) y) = Inl RuntimeError"
    "fst (Down_forward rt tr (Down_init rt name cin cout) y) = Inl RuntimeError"
    "fst (AvgDown_forward rt tr (AvgDown_init rt name cin cout) y) = Inl RuntimeError"
    "fst (Up_forward rt tr (Up_init rt name cin cout False) y skip) = Inl RuntimeError"
    "fst (OutConv_forward rt tr (OutConv_init rt name cin cout) y) = Inl RuntimeError"
    using assms(2,3)
    by (simp_all add: DoubleConv_forward_wrong_channels Down_init_seq AvgDown_init_seq
        fst_Up_forward_seq Up_init_def nn_ConvTranspose2d_def nn_Conv2d_def bind_res_def
        OutConv_forward_def OutConv_init_def)
  from same stem
  have err: "fst (UNet_forward rt ?self x) \<in> {Inl RuntimeError, Inl ValueError}"
    by simp
  show ?thesis
    unfolding Let_def
    using UNet_init_ok[of rt nch ncl bil] same err four blocks
      UNet_forward_no_channels[where rt = rt and ncl = ncl and bil = bil and tr = tr]
      Up_forward_no_channels[where rt = rt and tr = tr and name = name and cout = cout]
    by blast
qed

text \<open>
  Instances: a network for three channels on a batch with four channels, the same
  network on one unbatched image (the stem's first convolution accepts it, its batch
  normalisation raises ValueError), and a Down block for 64 channels on a map with 32.
\<close>

theorem shape_mismatch_raises_witness:
  "\<forall>rt :: real runtime.
     UNet_forward rt (UNet_body rt 3 2 False) (torch_zeros [2, 4, 64, 64])
       = (Inl RuntimeError, UNet_body rt 3 2 False) \<and>
     fst (UNet_forward rt (UNet_body rt 3 2 False) (torch_zeros [3, 64, 64])) = Inl ValueError \<and>
     fst (Down_forward rt True (Down_init rt ''down1'' 64 128) (torch_zeros [2, 32, 64, 64]))
       = Inl RuntimeError"
proof
  fix rt :: "real runtime"
  let ?x = "torch_zeros [2, 4, 64, 64] :: real tensor"
  let ?u = "torch_zeros [3, 64, 64] :: real tensor"
  let ?y = "torch_zeros [2, 32, 64, 64] :: real tensor"
  have same: "(UNet_body rt 3 2 False)\<lparr>training := True\<rparr> = UNet_body rt 3 2 False"
    by (simp add: UNet_body_def)
  have mismatch: "length (dims ?x) \<noteq> 4 \<or> dims ?x ! 1 \<noteq> (3 :: nat)"
    "dims ?y = [2, 32, 64, 64]" "(32 :: nat) \<noteq> 64"
    by (simp_all add: torch_zeros_def)
  have unbatched: "length (dims ?u) \<noteq> 4 \<or> dims ?u ! 1 \<noteq> (3 :: nat)"
    by (simp add: torch_zeros_def)
  have len: "length (dims ?x) = 4" by (simp add: torch_zeros_def)
  note r = shape_mismatch_raises[OF mismatch, where rt = rt and ncl = 2 and bil = False
      and tr = True and cout = 128 and name = "''down1''", unfolded Let_def same]
  note s = shape_mismatch_raises[OF unbatched mismatch(2,3), where rt = rt and ncl = 2
      and bil = False and tr = True, unfolded Let_def same]
  have "fst (DoubleConv_forward rt True (inc (UNet_body rt 3 2 False)) ?u) = Inl ValueError"
    by (simp add: UNet_body_def DoubleConv_forward_def DoubleConv_init_def nn_Conv2d_def
        nn_BatchNorm2d_def torch_zeros_def bind_res_def)
  with s r len
  show "UNet_forward rt (UNet_body rt 3 2 False) ?x = (Inl RuntimeError, UNet_body rt 3 2 False) \<and>
     fst (UNet_forward rt (UNet_body rt 3 2 False) ?u) = Inl ValueError \<and>
     fst (Down_forward rt True (Down_init rt ''down1'' 64 128) ?y) = Inl RuntimeError"
    by metis
qed

text \<open>
  The claim as first stated has constructors fail on inconsistent channel counts. They
  do not: \<^verbatim>\<open>UNet(0, 1)\<close> and \<^verbatim>\<open>Up(1, 4, bilinear=False)\<close>, whose transposed convolution
  has \<open>1 div 2 = 0\<close> output channels, are constructed, and raise RuntimeError only when
  they are run.
\<close>

theorem shape_mismatch_raises_counterexample:
  "\<forall>rt :: real runtime.
     UNet_init rt 0 1 False = Inr (UNet_body rt 0 1 False) \<and>
     fst (UNet_forward rt (UNet_body rt 0 1 False) (torch_zeros [1, 0, 16, 16]))
       = Inl RuntimeError \<and>
     up (Up_init rt ''up1'' 1 4 False) = nn_ConvTranspose2d rt ''up1.up'' 1 0 2 2 \<and>
     fst (Up_forward rt True (Up_init rt ''up1'' 1 4 False)
           (torch_zeros [1, 1, 4, 4]) (torch_zeros [1, 1, 8, 8])) = Inl RuntimeError"
proof
  fix rt :: "real runtime"
  have same: "(UNet_body rt 0 1 False)\<lparr>training := True\<rparr> = UNet_body rt 0 1 False"
    by (simp add: UNet_body_def)
  from UNet_forward_no_channels[where rt = rt and ncl = 1 and bil = False and tr = True
      and a = "torch_zeros [1, 0, 16, 16]"]
    Up_forward_no_channels[where rt = rt and tr = True and name = "''up1''" and cout = 4
      and a = "torch_zeros [1, 1, 4, 4]" and s = "torch_zeros [1, 1, 8, 8]"]
    UNet_init_ok[of rt 0 1 False]
  show "UNet_init rt 0 1 False = Inr (UNet_body rt 0 1 False) \<and>
     fst (UNet_forward rt (UNet_body rt 0 1 False) (torch_zeros [1, 0, 16, 16]))
       = Inl RuntimeError \<and>
     up (Up_init rt ''up1'' 1 4 False) = nn_ConvTranspose2d rt ''up1.up'' 1 0 2 2 \<and>
     fst (Up_forward rt True (Up_init rt ''up1'' 1 4 False)
           (torch_zeros [1, 1, 4, 4]) (torch_zeros [1, 1, 8, 8])) = Inl RuntimeError"
    unfolding same by (simp add: Up_init_def)
qed


section \<open>What a forward pass changes\<close>

subsection \<open>Parameters\<close>

lemma layer_forward_parameters:
  "layer_parameters (snd (layer_forward rt tr l x)) = layer_parameters l"
  by (cases l) (auto simp: split_beta split: sum.splits prod.splits)

lemma Sequential_forward_parameters:
  "map layer_parameters (snd (Sequential_forward rt tr ls x)) = map layer_parameters ls"
proof (induction ls arbitrary: x)
  case Nil
  show ?case by simp
next
  case (Cons l ls)
  have "layer_parameters (snd (layer_forward rt tr l x)) = layer_parameters l"
    by (rule layer_forward_parameters)
  with Cons show ?case
    by (cases "layer_forward rt tr l x") (auto split: sum.splits simp: split_beta)
qed

lemma DoubleConv_forward_parameters:
  "map layer_parameters (double_conv (snd (DoubleConv_forward rt tr m x)))
   = map layer_parameters (double_conv m)"
  by (simp add: DoubleConv_forward_def split_beta Sequential_forward_parameters)

lemma OutConv_forward_parameters:
  "map layer_parameters (out_conv (snd (OutConv_forward rt tr m x)))
   = map layer_parameters (out_conv m)"
  by (simp add: OutConv_forward_def split_beta Sequential_forward_parameters)

lemma Down_forward_parameters:
  "map layer_parameters (Down_layers (snd (Down_forward rt tr m x)))
   = map layer_parameters (Down_layers m)"
  by (simp add: Down_forward_def Down_layers_def split_beta snd_stage layer_forward_parameters
      DoubleConv_forward_parameters split: sum.splits)

lemma Up_forward_parameters:
  "map layer_parameters (Up_layers (snd (Up_forward rt tr m x1 x2)))
   = map layer_parameters (Up_layers m)"
  by (simp add: Up_forward_def Up_layers_def split_beta snd_stage layer_forward_parameters
      DoubleConv_forward_parameters split: sum.splits)

lemma UNet_forward_parameters_fields:
  "map layer_parameters (double_conv (inc (snd (UNet_forward rt self x))))
   = map layer_parameters (double_conv (inc self))"
  "map layer_parameters (Down_layers (down1 (snd (UNet_forward rt self x))))
   = map layer_parameters (Down_layers (down1 self))"
  "map layer_parameters (Down_layers (down2 (snd (UNet_forward rt self x))))
   = map layer_parameters (Down_layers (down2 self))"
  "map layer_parameters (Down_layers (down3 (snd (UNet_forward rt self x))))
   = map layer_parameters (Down_layers (down3 self))"
  "map layer_parameters (Down_layers (down4 (snd (UNet_forward rt self x))))
   = map layer_parameters (Down_layers (down4 self))"
  "map layer_parameters (Up_layers (up1 (snd (UNet_forward rt self x))))
   = map layer_parameters (Up_layers (up1 self))"
  "map layer_parameters (Up_layers (up2 (snd (UNet_forward rt self x))))
   = map layer_parameters (Up_layers (up2 self))"
  "map layer_parameters (Up_layers (up3 (snd (UNet_forward rt self x))))
   = map layer_parameters (Up_layers (up3 self))"
  "map layer_parameters (Up_layers (up4 (snd (UNet_forward rt self x))))
   = map layer_parameters (Up_layers (up4 self))"
  "map layer_parameters (out_conv (outc (snd (UNet_forward rt self x))))
   = map layer_parameters (out_conv (outc self))"
  by (simp_all add: UNet_forward_def snd_stage DoubleConv_forward_parameters
      Down_forward_parameters Up_forward_parameters OutConv_forward_parameters
      split: sum.splits)

lemma UNet_forward_parameters:
  "map layer_parameters (UNet_layers (snd (UNet_forward rt self x)))
   = map layer_parameters (UNet_layers self)"
  by (simp add: UNet_layers_def UNet_forward_parameters_fields)

subsection \<open>Evaluation mode\<close>

lemma snd_batch_norm_size_eval: "snd (batch_norm_size False n t d) = t"
  by (cases "(False, n, t, d)" rule: batch_norm_size.cases) simp_all

lemma snd_layer_forward_eval: "snd (layer_forward rt False l x) = l"
proof (cases l)
  case (BatchNorm2d n w b rm rv t)
  from snd_batch_norm_size_eval[of n t "dims x"] show ?thesis
    by (cases "batch_norm_size False n t (dims x)") (auto simp: BatchNorm2d split: sum.splits)
qed simp_all

lemma snd_Sequential_forward_eval: "snd (Sequential_forward rt False ls x) = ls"
proof (induction ls arbitrary: x)
  case Nil
  show ?case by simp
next
  case (Cons l ls)
  have "snd (layer_forward rt False l x) = l"
    by (rule snd_layer_forward_eval)
  with Cons show ?case
    by (cases "layer_forward rt False l x") (auto split: sum.splits simp: split_beta)
qed

lemma snd_DoubleConv_forward_eval: "snd (DoubleConv_forward rt False m x) = m"
  by (simp add: DoubleConv_forward_def split_beta snd_Sequential_forward_eval)

lemma snd_OutConv_forward_eval: "snd (OutConv_forward rt False m x) = m"
  by (simp add: OutConv_forward_def split_beta snd_Sequential_forward_eval)

lemma snd_Down_forward_eval: "snd (Down_forward rt False m x) = m"
  by (simp add: Down_forward_def split_beta snd_stage snd_layer_forward_eval
      snd_DoubleConv_forward_eval split: sum.splits)

lemma snd_Up_forward_eval: "snd (Up_forward rt False m x1 x2) = m"
  by (simp add: Up_forward_def split_beta snd_stage snd_layer_forward_eval
      snd_DoubleConv_forward_eval split: sum.splits)

lemma snd_UNet_forward_eval:
  assumes "\<not> training self"
  shows "snd (UNet_forward rt self x) = self"
  using assms
  by (simp add: UNet_forward_def snd_stage snd_DoubleConv_forward_eval snd_Down_forward_eval
      snd_Up_forward_eval snd_OutConv_forward_eval split: sum.splits)

subsection \<open>Training mode\<close>

lemma num_batches_tracked_Cons:
  "num_batches_tracked (l # ls)
   = map (\<lambda>(rm, rv, t). t) (layer_statistics l) @ num_batches_tracked ls"
  by (simp add: num_batches_tracked_def)

lemma num_batches_tracked_append:
  "num_batches_tracked (ks @ ls) = num_batches_tracked ks @ num_batches_tracked ls"
  by (simp add: num_batches_tracked_def)

lemma layer_forward_counter:
  assumes "\<not> isl (fst (layer_forward rt True l x))"
  shows "map (\<lambda>(rm, rv, t). t) (layer_statistics (snd (layer_forward rt True l x)))
         = map Suc (map (\<lambda>(rm, rv, t). t) (layer_statistics l))"
proof (cases l)
  case (BatchNorm2d n w b rm rv t)
  show ?thesis
  proof (cases "length (dims x) = 4")
    case True
    then obtain b' c' h' w' where "dims x = [b', c', h', w']"
      by (auto simp: numeral_eq_Suc length_Suc_conv)
    then show ?thesis
      by (simp add: BatchNorm2d split_beta)
  next
    case False
    then have "batch_norm_size True n t (dims x) = (Inl ValueError, t)"
      by (rule batch_norm_size_unbatched)
    with assms show ?thesis by (simp add: BatchNorm2d)
  qed
qed simp_all

lemma Sequential_forward_counter:
  assumes "\<not> isl (fst (Sequential_forward rt True ls x))"
  shows "num_batches_tracked (snd (Sequential_forward rt True ls x))
         = map Suc (num_batches_tracked ls)"
  using assms
proof (induction ls arbitrary: x)
  case Nil
  show ?case by (simp add: num_batches_tracked_def)
next
  case (Cons l ls)
  obtain r l' where l: "layer_forward rt True l x = (r, l')"
    by (cases "layer_forward rt True l x")
  show ?case
  proof (cases r)
    case (Inl e)
    with Cons.prems l show ?thesis by simp
  next
    case (Inr y)
    with l have ok: "\<not> isl (fst (layer_forward rt True l x))" by simp
    from layer_forward_counter[OF ok] l
    have c: "map (\<lambda>(rm, rv, t). t) (layer_statistics l')
             = map Suc (map (\<lambda>(rm, rv, t). t) (layer_statistics l))" by simp
    from Cons.prems l Inr have "\<not> isl (fst (Sequential_forward rt True ls y))"
      by (simp add: split_beta)
    from Cons.IH[OF this]
    have "num_batches_tracked (snd (Sequential_forward rt True ls y))
          = map Suc (num_batches_tracked ls)" .
    with c l Inr show ?thesis
      by (simp add: split_beta num_batches_tracked_Cons)
  qed
qed

lemma DoubleConv_forward_counter:
  assumes "\<not> isl (fst (DoubleConv_forward rt True m x))"
  shows "num_batches_tracked (double_conv (snd (DoubleConv_forward rt True m x)))
         = map Suc (num_batches_tracked (double_conv m))"
  using assms Sequential_forward_counter[of rt "double_conv m" x]
  by (simp add: DoubleConv_forward_def split_beta)

lemma OutConv_forward_counter:
  assumes "\<not> isl (fst (OutConv_forward rt True m x))"
  shows "num_batches_tracked (out_conv (snd (OutConv_forward rt True m x)))
         = map Suc (num_batches_tracked (out_conv m))"
  using assms Sequential_forward_counter[of rt "out_conv m" x]
  by (simp add: OutConv_forward_def split_beta)

lemma Down_forward_counter:
  assumes "\<not> isl (fst (Down_forward rt True m x))"
  shows "num_batches_tracked (Down_layers (snd (Down_forward rt True m x)))
         = map Suc (num_batches_tracked (Down_layers m))"
proof -
  obtain r l' where l: "layer_forward rt True (fst (maxpool_conv m)) x = (r, l')"
    by (cases "layer_forward rt True (fst (maxpool_conv m)) x")
  show ?thesis
  proof (cases r)
    case (Inl e)
    with assms l show ?thesis by (simp add: fst_Down_forward_seq bind_res_def)
  next
    case (Inr y)
    with l have "\<not> isl (fst (layer_forward rt True (fst (maxpool_conv m)) x))" by simp
    from layer_forward_counter[OF this] l
    have c: "map (\<lambda>(rm, rv, t). t) (layer_statistics l')
             = map Suc (map (\<lambda>(rm, rv, t). t) (layer_statistics (fst (maxpool_conv m))))"
      by simp
    from assms l Inr have "\<not> isl (fst (DoubleConv_forward rt True (snd (maxpool_conv m)) y))"
      by (simp add: fst_Down_forward_seq bind_res_def)
    from DoubleConv_forward_counter[OF this] c l Inr show ?thesis
      by (simp add: Down_forward_def Down_layers_def split_beta stage_def
          num_batches_tracked_Cons)
  qed
qed

lemma Up_forward_counter:
  assumes "\<not> isl (fst (Up_forward rt True m x1 x2))"
  shows "num_batches_tracked (Up_layers (snd (Up_forward rt True m x1 x2)))
         = map Suc (num_batches_tracked (Up_layers m))"
proof -
  obtain r l' where l: "layer_forward rt True (up m) x1 = (r, l')"
    by (cases "layer_forward rt True (up m) x1")
  show ?thesis
  proof (cases r)
    case (Inl e)
    with assms l show ?thesis by (simp add: fst_Up_forward_seq bind_res_def)
  next
    case (Inr u)
    with l have "\<not> isl (fst (layer_forward rt True (up m) x1))" by simp
    from layer_forward_counter[OF this] l
    have c: "map (\<lambda>(rm, rv, t). t) (layer_statistics l')
             = map Suc (map (\<lambda>(rm, rv, t). t) (layer_statistics (up m)))"
      by simp
    show ?thesis
    proof (cases "pad_and_cat u x2")
      case (Inl e)
      with assms l Inr show ?thesis by (simp add: fst_Up_forward_seq bind_res_def)
    next
      case y: (Inr y)
      from assms l Inr y have "\<not> isl (fst (DoubleConv_forward rt True (conv m) y))"
        by (simp add: fst_Up_forward_seq bind_res_def)
      from DoubleConv_forward_counter[OF this] c l Inr y show ?thesis
        by (simp add: Up_forward_def Up_layers_def split_beta stage_def
            num_batches_tracked_Cons split: sum.splits)
    qed
  qed
qed

lemma snd_UNet_forward_stages:
  assumes "fst (DoubleConv_forward rt (training self) (inc self) x) = Inr x1"
    and "fst (Down_forward rt (training self) (down1 self) x1) = Inr x2"
    and "fst (Down_forward rt (training self) (down2 self) x2) = Inr x3"
    and "fst (Down_forward rt (training self) (down3 self) x3) = Inr x4"
    and "fst (Down_forward rt (training self) (down4 self) x4) = Inr x5"
    and "fst (Up_forward rt (training self) (up1 self) x5 x4) = Inr y1"
    and "fst (Up_forward rt (training self) (up2 self) y1 x3) = Inr y2"
    and "fst (Up_forward rt (training self) (up3 self) y2 x2) = Inr y3"
    and "fst (Up_forward rt (training self) (up4 self) y3 x1) = Inr y4"
    and "fst (OutConv_forward rt (training self) (outc self) y4) = Inr logits"
  shows "snd (UNet_forward rt self x) =
         self\<lparr>inc := snd (DoubleConv_forward rt (training self) (inc self) x),
              down1 := snd (Down_forward rt (training self) (down1 self) x1),
              down2 := snd (Down_forward rt (training self) (down2 self) x2),
              down3 := snd (Down_forward rt (training self) (down3 self) x3),
              down4 := snd (Down_forward rt (training self) (down4 self) x4),
              up1 := snd (Up_forward rt (training self) (up1 self) x5 x4),
              up2 := snd (Up_forward rt (training self) (up2 self) y1 x3),
              up3 := snd (Up_forward rt (training self) (up3 self) y2 x2),
              up4 := snd (Up_forward rt (training self) (up4 self) y3 x1),
              outc := snd (OutConv_forward rt (training self) (outc self) y4)\<rparr>"
  using assms by (simp add: UNet_forward_def snd_stage)

lemma UNet_forward_ok_stages:
  assumes "\<not> isl (fst (UNet_forward rt self x))"
  shows "\<exists>x1 x2 x3 x4 x5 y1 y2 y3 y4 logits.
     fst (DoubleConv_forward rt (training self) (inc self) x) = Inr x1 \<and>
     fst (Down_forward rt (training self) (down1 self) x1) = Inr x2 \<and>
     fst (Down_forward rt (training self) (down2 self) x2) = Inr x3 \<and>
     fst (Down_forward rt (training self) (down3 self) x3) = Inr x4 \<and>
     fst (Down_forward rt (training self) (down4 self) x4) = Inr x5 \<and>
     fst (Up_forward rt (training self) (up1 self) x5 x4) = Inr y1 \<and>
     fst (Up_forward rt (training self) (up2 self) y1 x3) = Inr y2 \<and>
     fst (Up_forward rt (training self) (up3 self) y2 x2) = Inr y3 \<and>
     fst (Up_forward rt (training self) (up4 self) y3 x1) = Inr y4 \<and>
     fst (OutConv_forward rt (training self) (outc self) y4) = Inr logits"
  using assms by (simp add: UNet_forward_def fst_stage split: sum.splits)

lemma UNet_forward_counter:
  assumes "training self" and "\<not> isl (fst (UNet_forward rt self x))"
  shows "num_batches_tracked (UNet_layers (snd (UNet_forward rt self x)))
         = map Suc (num_batches_tracked (UNet_layers self))"
proof -
  from UNet_forward_ok_stages[OF assms(2)] assms(1)
  obtain x1 x2 x3 x4 x5 y1 y2 y3 y4 logits where s:
     "fst (DoubleConv_forward rt (training self) (inc self) x) = Inr x1"
     "fst (Down_forward rt (training self) (down1 self) x1) = Inr x2"
     "fst (Down_forward rt (training self) (down2 self) x2) = Inr x3"
     "fst (Down_forward rt (training self) (down3 self) x3) = Inr x4"
     "fst (Down_forward rt (training self) (down4 self) x4) = Inr x5"
     "fst (Up_forward rt (training self) (up1 self) x5 x4) = Inr y1"
     "fst (Up_forward rt (training self) (up2 self) y1 x3) = Inr y2"
     "fst (Up_forward rt (training self) (up3 self) y2 x2) = Inr y3"
     "fst (Up_forward rt (training self) (up4 self) y3 x1) = Inr y4"
     "fst (OutConv_forward rt (training self) (outc self) y4) = Inr logits"
    by blast
  have t: "training self = True" using assms(1) by simp
  note s' = s[unfolded t]
  have ok: "\<not> isl (fst (DoubleConv_forward rt True (inc self) x))"
    "\<not> isl (fst (Down_forward rt True (down1 self) x1))"
    "\<not> isl (fst (Down_forward rt True (down2 self) x2))"
    "\<not> isl (fst (Down_forward rt True (down3 self) x3))"
    "\<not> isl (fst (Down_forward rt True (down4 self) x4))"
    "\<not> isl (fst (Up_forward rt True (up1 self) x5 x4))"
    "\<not> isl (fst (Up_forward rt True (up2 self) y1 x3))"
    "\<not> isl (fst (Up_forward rt True (up3 self) y2 x2))"
    "\<not> isl (fst (Up_forward rt True (up4 self) y3 x1))"
    "\<not> isl (fst (OutConv_forward rt True (outc self) y4))"
    unfolding s' by simp_all
  note c = DoubleConv_forward_counter[OF ok(1)] Down_forward_counter[OF ok(2)]
    Down_forward_counter[OF ok(3)] Down_forward_counter[OF ok(4)] Down_forward_counter[OF ok(5)]
    Up_forward_counter[OF ok(6)] Up_forward_counter[OF ok(7)] Up_forward_counter[OF ok(8)]
    Up_forward_counter[OF ok(9)] OutConv_forward_counter[OF ok(10)]
  show ?thesis
    unfolding snd_UNet_forward_stages[OF s] t
    by (simp add: UNet_layers_def num_batches_tracked_append c)
qed

lemma num_batches_tracked_UNet_body:
  "num_batches_tracked (UNet_layers (UNet_body rt nch ncl bil))
   = [0, 0, 0, 0, 0, 0, 0, 0, 0, 0, 0, 0, 0, 0, 0, 0, 0, 0]"
  by (simp add: UNet_layers_def UNet_body_def Down_layers_def Up_layers_def Down_init_def
      Up_init_def DoubleConv_init_def OutConv_init_def nn_Conv2d_def nn_ConvTranspose2d_def
      nn_BatchNorm2d_def num_batches_tracked_def Let_def)

text \<open>
  Claim C10, as amended. A forward pass through UNet leaves every weight and every bias
  of the model unchanged, in either mode, on every input and whether or not the pass
  raises. In evaluation mode it leaves the whole network unchanged, the normalisation
  statistics included. In training mode, the mode of a newly constructed network, the
  forward pass itself updates normalisation statistics: after a pass that returns, the
  counter \<^verbatim>\<open>num_batches_tracked\<close> of every batch normalisation layer has gone up by one.
\<close>

theorem UNet_forward_frame:
  "map layer_parameters (UNet_layers (snd (UNet_forward rt self x)))
     = map layer_parameters (UNet_layers self) \<and>
   (\<not> training self \<longrightarrow> snd (UNet_forward rt self x) = self) \<and>
   (training self \<and> (\<exists>y. fst (UNet_forward rt self x) = Inr y) \<longrightarrow>
      num_batches_tracked (UNet_layers (snd (UNet_forward rt self x)))
        = map Suc (num_batches_tracked (UNet_layers self)))"
proof -
  have "num_batches_tracked (UNet_layers (snd (UNet_forward rt self x)))
        = map Suc (num_batches_tracked (UNet_layers self))"
    if "training self" "fst (UNet_forward rt self x) = Inr y" for y
    using that by (intro UNet_forward_counter) simp_all
  then show ?thesis
    using UNet_forward_parameters[of rt self x] snd_UNet_forward_eval[of self rt x] by blast
qed

text \<open>
  An instance: the self-test input of shape (1, 1, 100, 100), given to a new network with
  one input channel and one class, in evaluation mode and in training mode.
\<close>

theorem UNet_forward_frame_witness:
  "\<forall>rt :: real runtime.
     snd (UNet_forward rt ((UNet_body rt 1 1 False)\<lparr>training := False\<rparr>)
            (torch_zeros [1, 1, 100, 100]))
       = (UNet_body rt 1 1 False)\<lparr>training := False\<rparr> \<and>
     map layer_parameters
       (UNet_layers (snd (UNet_forward rt (UNet_body rt 1 1 False) (torch_zeros [1, 1, 100, 100]))))
       = map layer_parameters (UNet_layers (UNet_body rt 1 1 False)) \<and>
     num_batches_tracked
       (UNet_layers (snd (UNet_forward rt (UNet_body rt 1 1 False) (torch_zeros [1, 1, 100, 100]))))
       = [1, 1, 1, 1, 1, 1, 1, 1, 1, 1, 1, 1, 1, 1, 1, 1, 1, 1]"
proof
  fix rt :: "real runtime"
  let ?x = "torch_zeros [1, 1, 100, 100] :: real tensor"
  let ?new = "UNet_body rt 1 1 False"
  let ?eval = "?new\<lparr>training := False\<rparr>"
  have same: "?new\<lparr>training := True\<rparr> = ?new" and t: "training ?new"
    and e: "\<not> training ?eval"
    by (simp_all add: UNet_body_def)
  have fit: "(0::nat) < 1" "(0::nat) < 1" "(16::nat) \<le> 100" "(16::nat) \<le> 100"
    "True \<longrightarrow> (1::nat) * (100 div 16) * (100 div 16) \<noteq> 1"
    "dims ?x = [1, 1, 100, 100]"
    by (simp_all add: torch_zeros_def)
  from UNet_forward_trace[OF fit refl, of rt False]
  have ok: "\<exists>y. fst (UNet_forward rt ?new ?x) = Inr y"
    unfolding same by blast
  note a = UNet_forward_frame[of rt ?eval ?x, THEN conjunct2, THEN conjunct1, rule_format, OF e]
  note r = UNet_forward_frame[of rt ?new ?x]
  note b = r[THEN conjunct1]
  note c = r[THEN conjunct2, THEN conjunct2, rule_format, OF conjI[OF t ok]]
  show "snd (UNet_forward rt ?eval ?x) = ?eval \<and>
     map layer_parameters (UNet_layers (snd (UNet_forward rt ?new ?x)))
       = map layer_parameters (UNet_layers ?new) \<and>
     num_batches_tracked (UNet_layers (snd (UNet_forward rt ?new ?x)))
       = [1, 1, 1, 1, 1, 1, 1, 1, 1, 1, 1, 1, 1, 1, 1, 1, 1, 1]"
    unfolding c num_batches_tracked_UNet_body using a b by simp
qed

text \<open>
  The claim as first stated, that a forward pass leaves every normalisation statistic
  unchanged, fails on the self-test input given to a newly constructed UNet: the pass
  returns, and each of the 18 batch normalisation layers has counted one batch.
\<close>

theorem UNet_forward_frame_counterexample:
  "\<forall>rt :: real runtime.
     training (UNet_body rt 1 1 False) \<and>
     (\<exists>y. fst (UNet_forward rt (UNet_body rt 1 1 False) (torch_zeros [1, 1, 100, 100])) = Inr y \<and>
          dims y = [1, 1, 100, 100]) \<and>
     num_batches_tracked (UNet_layers (UNet_body rt 1 1 False))
       = [0, 0, 0, 0, 0, 0, 0, 0, 0, 0, 0, 0, 0, 0, 0, 0, 0, 0] \<and>
     num_batches_tracked
       (UNet_layers (snd (UNet_forward rt (UNet_body rt 1 1 False) (torch_zeros [1, 1, 100, 100]))))
       = [1, 1, 1, 1, 1, 1, 1, 1, 1, 1, 1, 1, 1, 1, 1, 1, 1, 1] \<and>
     snd (UNet_forward rt (UNet_body rt 1 1 False) (torch_zeros [1, 1, 100, 100]))
       \<noteq> UNet_body rt 1 1 False"
proof
  fix rt :: "real runtime"
  let ?x = "torch_zeros [1, 1, 100, 100] :: real tensor"
  let ?new = "UNet_body rt 1 1 False"
  have same: "?new\<lparr>training := True\<rparr> = ?new" and t: "training ?new"
    by (simp_all add: UNet_body_def)
  have fit: "(0::nat) < 1" "(0::nat) < 1" "(16::nat) \<le> 100" "(16::nat) \<le> 100"
    "True \<longrightarrow> (1::nat) * (100 div 16) * (100 div 16) \<noteq> 1"
    "dims ?x = [1, 1, 100, 100]"
    by (simp_all add: torch_zeros_def)
  from UNet_forward_trace[OF fit refl, of rt False]
  have ok: "\<exists>y. fst (UNet_forward rt ?new ?x) = Inr y \<and> dims y = [1, 1, 100, 100]"
    unfolding same by blast
  then have "\<not> isl (fst (UNet_forward rt ?new ?x))" by auto
  from UNet_forward_counter[OF t this]
  have after: "num_batches_tracked (UNet_layers (snd (UNet_forward rt ?new ?x)))
       = [1, 1, 1, 1, 1, 1, 1, 1, 1, 1, 1, 1, 1, 1, 1, 1, 1, 1]"
    unfolding num_batches_tracked_UNet_body by simp
  have before: "num_batches_tracked (UNet_layers ?new)
       = [0, 0, 0, 0, 0, 0, 0, 0, 0, 0, 0, 0, 0, 0, 0, 0, 0, 0]"
    by (rule num_batches_tracked_UNet_body)
  from before after have "snd (UNet_forward rt ?new ?x) \<noteq> ?new"
    by auto
  with t ok before after
  show "training ?new \<and>
     (\<exists>y. fst (UNet_forward rt ?new ?x) = Inr y \<and> dims y = [1, 1, 100, 100]) \<and>
     num_batches_tracked (UNet_layers ?new)
       = [0, 0, 0, 0, 0, 0, 0, 0, 0, 0, 0, 0, 0, 0, 0, 0, 0, 0] \<and>
     num_batches_tracked (UNet_layers (snd (UNet_forward rt ?new ?x)))
       = [1, 1, 1, 1, 1, 1, 1, 1, 1, 1, 1, 1, 1, 1, 1, 1, 1, 1] \<and>
     snd (UNet_forward rt ?new ?x) \<noteq> ?new"
    by blast
qed


section \<open>AvgPoolUNet\<close>

text \<open>
  Claim C3. Whatever the arguments, constructing an AvgPoolUNet raises TypeError at the
  first line of the constructor, before any attribute is assigned and any layer is
  created: the class derives from \<^verbatim>\<open>nn.Module\<close> only, its instance is not an instance
  of \<^verbatim>\<open>UNet\<close>, and \<^verbatim>\<open>super(UNet, self)\<close> is refused. No AvgPoolUNet is ever returned, so
  its \<^verbatim>\<open>forward\<close> is never reached.
\<close>

theorem AvgPoolUNet_init_raises:
  "UNet_cls \<notin> set (mro AvgPoolUNet_cls) \<and>
   py_super UNet_cls AvgPoolUNet_cls = Inl TypeError \<and>
   AvgPoolUNet_init rt nch ncl bil = Inl TypeError \<and>
   (\<forall>net. AvgPoolUNet_init rt nch ncl bil \<noteq> Inr net)"
  by (simp add: AvgPoolUNet_init_def py_super_def bind_res_def)

text \<open>
  Had the first line named the class itself, the rest of the class would do what UNet
  does: on every input that UNet accepts, the forward pass over the attributes that the
  constructor body assigns returns a tensor of the shape UNet returns.
\<close>

lemma AvgPoolUNet_body_fields:
  "training ((AvgPoolUNet_body rt nch ncl bil)\<lparr>training := tr\<rparr>) = tr"
  "inc ((AvgPoolUNet_body rt nch ncl bil)\<lparr>training := tr\<rparr>) = DoubleConv_init rt ''inc'' nch 64 None"
  "down1 ((AvgPoolUNet_body rt nch ncl bil)\<lparr>training := tr\<rparr>) = AvgDown_init rt ''down1'' 64 128"
  "down2 ((AvgPoolUNet_body rt nch ncl bil)\<lparr>training := tr\<rparr>) = AvgDown_init rt ''down2'' 128 256"
  "down3 ((AvgPoolUNet_body rt nch ncl bil)\<lparr>training := tr\<rparr>) = AvgDown_init rt ''down3'' 256 512"
  "down4 ((AvgPoolUNet_body rt nch ncl bil)\<lparr>training := tr\<rparr>)
   = AvgDown_init rt ''down4'' 512 (if bil then 512 else 1024)"
  "up1 ((AvgPoolUNet_body rt nch ncl bil)\<lparr>training := tr\<rparr>)
   = Up_init rt ''up1'' 1024 (if bil then 256 else 512) bil"
  "up2 ((AvgPoolUNet_body rt nch ncl bil)\<lparr>training := tr\<rparr>)
   = Up_init rt ''up2'' 512 (if bil then 128 else 256) bil"
  "up3 ((AvgPoolUNet_body rt nch ncl bil)\<lparr>training := tr\<rparr>)
   = Up_init rt ''up3'' 256 (if bil then 64 else 128) bil"
  "up4 ((AvgPoolUNet_body rt nch ncl bil)\<lparr>training := tr\<rparr>) = Up_init rt ''up4'' 128 64 bil"
  "outc ((AvgPoolUNet_body rt nch ncl bil)\<lparr>training := tr\<rparr>) = OutConv_init rt ''outc'' 64 ncl"
  by (simp_all add: AvgPoolUNet_body_def Let_def)

lemma fst_AvgPoolUNet_forward_stages:
  assumes "fst (DoubleConv_forward rt (training self) (inc self) x) = Inr x1"
    and "fst (AvgDown_forward rt (training self) (down1 self) x1) = Inr x2"
    and "fst (AvgDown_forward rt (training self) (down2 self) x2) = Inr x3"
    and "fst (AvgDown_forward rt (training self) (down3 self) x3) = Inr x4"
    and "fst (AvgDown_forward rt (training self) (down4 self) x4) = Inr x5"
    and "fst (Up_forward rt (training self) (up1 self) x5 x4) = Inr y1"
    and "fst (Up_forward rt (training self) (up2 self) y1 x3) = Inr y2"
    and "fst (Up_forward rt (training self) (up3 self) y2 x2) = Inr y3"
    and "fst (Up_forward rt (training self) (up4 self) y3 x1) = Inr y4"
    and "fst (OutConv_forward rt (training self) (outc self) y4) = Inr logits"
  shows "fst (AvgPoolUNet_forward rt self x) = Inr logits"
  using assms by (simp add: AvgPoolUNet_forward_def fst_stage)

lemma AvgPoolUNet_body_forward_shape:
  assumes "0 < nch" "0 < ncl" "16 \<le> H" "16 \<le> W"
    and "tr \<longrightarrow> B * (H div 16) * (W div 16) \<noteq> 1"
    and "dims x = [B, nch, H, W]"
  shows "\<exists>y. fst (AvgPoolUNet_forward rt ((AvgPoolUNet_body rt nch ncl bil)\<lparr>training := tr\<rparr>) x)
               = Inr y \<and> dims y = [B, ncl, H, W]"
proof -
  define self where "self = (AvgPoolUNet_body rt nch ncl bil)\<lparr>training := tr\<rparr>"
  define h1 w1 where "h1 = H div 2" and "w1 = W div 2"
  define h2 w2 where "h2 = H div 4" and "w2 = W div 4"
  define h3 w3 where "h3 = H div 8" and "w3 = W div 8"
  define h4 w4 where "h4 = H div 16" and "w4 = W div 16"
  define c5 :: nat where "c5 = (if bil then 512 else 1024)"
  define c6 :: nat where "c6 = (if bil then 256 else 512)"
  define c7 :: nat where "c7 = (if bil then 128 else 256)"
  define c8 :: nat where "c8 = (if bil then 64 else 128)"
  note defs = h1_def w1_def h2_def w2_def h3_def w3_def h4_def w4_def
  note cdefs = c5_def c6_def c7_def c8_def
  note f = AvgPoolUNet_body_fields[where rt = rt and nch = nch and ncl = ncl and bil = bil
      and tr = tr, folded self_def cdefs]
  have top: "0 < H" "0 < W" "2 \<le> H" "2 \<le> W"
    using assms(3,4) by auto
  have sz: "2 \<le> h1" "2 \<le> w1" "2 \<le> h2" "2 \<le> w2" "2 \<le> h3" "2 \<le> w3"
    "0 < h1" "0 < w1" "0 < h2" "0 < w2" "0 < h3" "0 < w3" "0 < h4" "0 < w4"
    using assms(3,4) unfolding defs by auto
  have halves: "h1 = H div 2" "w1 = W div 2" "h2 = h1 div 2" "w2 = w1 div 2"
    "h3 = h2 div 2" "w3 = w2 div 2" "h4 = h3 div 2" "w4 = w3 div 2"
    unfolding defs by (simp_all add: div_mult2_eq[symmetric])
  have bn: "tr \<longrightarrow> B * h4 * w4 \<noteq> 1"
    using assms(5) unfolding defs .
  have bn3: "tr \<longrightarrow> B * h3 * w3 \<noteq> 1" "tr \<longrightarrow> B * h2 * w2 \<noteq> 1" "tr \<longrightarrow> B * h1 * w1 \<noteq> 1"
    "tr \<longrightarrow> B * H * W \<noteq> 1"
    using sz(1-6) top(3,4) by (auto simp: nat_mult_eq_1_iff)
  have cpos: "0 < c5" "0 < c6" "0 < c7" "0 < c8"
    unfolding cdefs by auto
  have n: "(0::nat) < 64" "(0::nat) < 128" "(0::nat) < 256" "(0::nat) < 512"
    by simp_all
  obtain x1 where x1: "fst (DoubleConv_forward rt tr (inc self) x) = Inr x1"
    and d1: "dims x1 = [B, 64, H, W]"
    unfolding f using fst_DoubleConv_forward[OF assms(6,1) n(1) top(1,2) bn3(4)] by blast
  obtain x2 where x2: "fst (AvgDown_forward rt tr (down1 self) x1) = Inr x2"
    and d2: "dims x2 = [B, 128, h1, w1]"
    unfolding f using fst_AvgDown_forward[OF d1 halves(1,2) n(1,2) top(3,4) bn3(3)] by blast
  obtain x3 where x3: "fst (AvgDown_forward rt tr (down2 self) x2) = Inr x3"
    and d3: "dims x3 = [B, 256, h2, w2]"
    unfolding f using fst_AvgDown_forward[OF d2 halves(3,4) n(2,3) sz(1,2) bn3(2)] by blast
  obtain x4 where x4: "fst (AvgDown_forward rt tr (down3 self) x3) = Inr x4"
    and d4: "dims x4 = [B, 512, h3, w3]"
    unfolding f using fst_AvgDown_forward[OF d3 halves(5,6) n(3,4) sz(3,4) bn3(1)] by blast
  obtain x5 where x5: "fst (AvgDown_forward rt tr (down4 self) x4) = Inr x5"
    and d5: "dims x5 = [B, c5, h4, w4]"
    unfolding f using fst_AvgDown_forward[OF d4 halves(7,8) n(4) cpos(1) sz(5,6) bn] by blast
  have fit1: "if bil then c5 + 512 = 1024 else c5 = 1024 \<and> 2 \<le> (1024::nat) \<and> 512 + 1024 div 2 = (1024::nat)"
    unfolding cdefs by simp
  obtain y1 where y1: "fst (Up_forward rt tr (up1 self) x5 x4) = Inr y1"
    and e1: "dims y1 = [B, c6, h3, w3]"
    unfolding f
    using fst_Up_forward[OF d5 d4 sz(13,14,11,12) cpos(1,2) fit1 bn3(1)] by blast
  have fit2: "if bil then c6 + 256 = 512 else c6 = 512 \<and> 2 \<le> (512::nat) \<and> 256 + 512 div 2 = (512::nat)"
    unfolding cdefs by simp
  obtain y2 where y2: "fst (Up_forward rt tr (up2 self) y1 x3) = Inr y2"
    and e2: "dims y2 = [B, c7, h2, w2]"
    unfolding f
    using fst_Up_forward[OF e1 d3 sz(11,12,9,10) cpos(2,3) fit2 bn3(2)] by blast
  have fit3: "if bil then c7 + 128 = 256 else c7 = 256 \<and> 2 \<le> (256::nat) \<and> 128 + 256 div 2 = (256::nat)"
    unfolding cdefs by simp
  obtain y3 where y3: "fst (Up_forward rt tr (up3 self) y2 x2) = Inr y3"
    and e3: "dims y3 = [B, c8, h1, w1]"
    unfolding f
    using fst_Up_forward[OF e2 d2 sz(9,10,7,8) cpos(3,4) fit3 bn3(3)] by blast
  have fit4: "if bil then c8 + 64 = 128 else c8 = 128 \<and> 2 \<le> (128::nat) \<and> 64 + 128 div 2 = (128::nat)"
    unfolding cdefs by simp
  obtain y4 where y4: "fst (Up_forward rt tr (up4 self) y3 x1) = Inr y4"
    and e4: "dims y4 = [B, 64, H, W]"
    unfolding f
    using fst_Up_forward[OF e3 d1 sz(7,8) top(1,2) cpos(4) n(1) fit4 bn3(4)] by blast
  obtain logits where lg: "fst (OutConv_forward rt tr (outc self) y4) = Inr logits"
    and el: "dims logits = [B, ncl, H, W]"
    unfolding f using fst_OutConv_forward[OF e4 n(1) assms(2) top(1,2)] by blast
  have t: "training self = tr" by (rule f(1))
  have "fst (AvgPoolUNet_forward rt self x) = Inr logits"
    by (rule fst_AvgPoolUNet_forward_stages[of rt self x, unfolded t,
          OF x1 x2 x3 x4 x5 y1 y2 y3 y4 lg])
  with el show ?thesis
    unfolding self_def by blast
qed

text \<open>
  Claim C2 asks that an AvgPoolUNet and a UNet built with the same arguments both run and
  return outputs of the same shape. The program's own self-test is the failing input:
  it ends with the TypeError of the constructor and never reaches the forward pass.
\<close>

theorem main_raises_TypeError:
  "main rt = Inl TypeError"
  by (simp add: main_def AvgPoolUNet_init_def py_super_def bind_res_def)

end
